theory Spec2Isabelle
  imports Main "HOL-Library.Word"
begin

section \<open>Scope\<close>

text \<open>
  This theory embeds the token lifecycle of the Twitter command-line client: credential
  and token storage, the refresh of a token that is about to expire, the OAuth 2.0 PKCE
  authorization flow with its local callback listener, and the guards of the user
  lookup. It follows the auth module that the command-line script imports from, the one
  that exports \<^verbatim>\<open>performSetup\<close> and \<^verbatim>\<open>getGlobalTokenPath\<close>, reads credentials from a
  file or from 1Password, and falls back to a global token file. The repository also
  holds a copy of the module with embedded credentials and project-local token storage
  only; its listener, its refresh and its expiry test are the same, and its token lookup
  is \<open>findTokenPath_project_only\<close> below.

  Library calls are modelled by their results. A JSON file is held as the value that
  \<^verbatim>\<open>JSON.parse\<close> yields for it; reading a file fails only when the file is missing or
  does not parse, and writing does not fail; \<^verbatim>\<open>fetch\<close> delivers a response whose body
  parses; the clock does not advance during a call. Console output is left out.
\<close>

section \<open>JavaScript values used by the token lifecycle code\<close>

text \<open>
  An optional string field (\<^verbatim>\<open>error?: string\<close>, the result of
  \<^verbatim>\<open>searchParams.get\<close>) is a \<open>string option\<close>. JavaScript's \<^verbatim>\<open>if (x)\<close> and
  \<^verbatim>\<open>x || y\<close> on such a value test truthiness: \<^verbatim>\<open>undefined\<close>, \<^verbatim>\<open>null\<close> and the
  empty string are all falsy.
\<close>

type_synonym byte = "8 word"

fun truthy :: "string option \<Rightarrow> bool" where
  "truthy None = False"
| "truthy (Some s) = (s \<noteq> [])"

fun or_str :: "string option \<Rightarrow> string \<Rightarrow> string" where
  "or_str None d = d"
| "or_str (Some s) d = (if s = [] then d else s)"

fun or_num :: "int option \<Rightarrow> int \<Rightarrow> int" where
  "or_num None d = d"
| "or_num (Some n) d = (if n = 0 then d else n)"

definition nl :: string where
  "nl = [CHR 0x0A]"

text \<open>\<^verbatim>\<open>path.join\<close> of two segments; the normalisation it also does is not modelled.\<close>

definition path_join :: "string \<Rightarrow> string \<Rightarrow> string" where
  "path_join a b = a @ ''/'' @ b"

text \<open>\<^verbatim>\<open>String.prototype.trim\<close>, on the white space of the ASCII range.\<close>

definition is_space :: "char \<Rightarrow> bool" where
  "is_space c = (c \<in> set [CHR '' '', CHR 0x09, CHR 0x0A, CHR 0x0B, CHR 0x0C, CHR 0x0D])"

definition trim :: "string \<Rightarrow> string" where
  "trim s = rev (dropWhile is_space (rev (dropWhile is_space s)))"

fun str_includes :: "string \<Rightarrow> string \<Rightarrow> bool" where
  "str_includes [] pat = (pat = [])"
| "str_includes (c # cs) pat = (take (length pat) (c # cs) = pat \<or> str_includes cs pat)"

definition endsWith :: "string \<Rightarrow> string \<Rightarrow> bool" where
  "endsWith s suf = (length suf \<le> length s \<and> drop (length s - length suf) s = suf)"

datatype error = Error string | SyntaxError string | SystemError string | TypeError string

fun message :: "error \<Rightarrow> string" where
  "message (Error m) = m"
| "message (SyntaxError m) = m"
| "message (SystemError m) = m"
| "message (TypeError m) = m"

section \<open>Data model\<close>

record Credentials =
  client_id :: string
  client_secret :: string

record TokenData =
  access_token :: string
  refresh_token :: string
  expires_at :: int
  scope :: string
  token_type :: string

text \<open>
  A token file holds either the JSON text of a \<open>TokenData\<close> (what \<^verbatim>\<open>saveToken\<close>
  writes with \<^verbatim>\<open>JSON.stringify\<close> and \<^verbatim>\<open>JSON.parse\<close> reads back), or text on which
  \<^verbatim>\<open>JSON.parse\<close> throws a \<^verbatim>\<open>SyntaxError\<close> with the given message.
\<close>

datatype stored = Doc TokenData | Unparsable string

datatype cred_file = CredDoc "string option" "string option" | CredUnparsable

text \<open>The body of a token-endpoint response, after \<^verbatim>\<open>response.json()\<close>.\<close>

record token_response =
  resp_access_token :: "string option"
  resp_refresh_token :: "string option"
  resp_expires_in :: "int option"
  resp_scope :: "string option"
  resp_token_type :: "string option"
  resp_error :: "string option"
  resp_error_description :: "string option"

text \<open>
  The POST to the token endpoint: the \<^verbatim>\<open>Authorization\<close> header and the form body.
  The body is a list of pairs in the order of the object literal given to
  \<^verbatim>\<open>URLSearchParams\<close>.
\<close>

record token_request =
  authorization :: string
  form :: "(string \<times> string) list"

record api_request =
  url :: string
  req_method :: "string option"
  req_body :: "string option"
  bearer :: string

record PublicMetrics =
  followers_count :: int
  following_count :: int
  tweet_count :: int
  listed_count :: int

record TwitterUser =
  user_id :: string
  name :: string
  username :: string
  created_at :: "string option"
  description :: "string option"
  location :: "string option"
  profile_image_url :: "string option"
  protected :: "bool option"
  verified :: "bool option"
  verified_type :: "string option"
  user_url :: "string option"
  public_metrics :: "PublicMetrics option"

text \<open>
  What \<^verbatim>\<open>twitterRequest\<close> reads from an API response: status, the three rate-limit
  headers, and the fields of the JSON body it looks at (\<^verbatim>\<open>data\<close> on success; \<^verbatim>\<open>detail\<close>,
  \<^verbatim>\<open>title\<close> and the message of the first entry of \<^verbatim>\<open>errors\<close> on failure).
\<close>

record 'a api_response =
  status :: nat
  rate_limit_limit :: "string option"
  rate_limit_remaining :: "string option"
  rate_limit_reset :: "string option"
  body_data :: "'a option"
  body_detail :: "string option"
  body_title :: "string option"
  body_errors :: "string option list"

datatype http_call = TokenPost token_request | ApiFetch api_request

text \<open>
  A request to the local listener, as its handler sees it after its first statement
  \<^verbatim>\<open>new URL(req.url!, base)\<close>: the request target either does not parse, and the
  constructor throws a \<^verbatim>\<open>TypeError\<close>, or it parses and has a list of decoded query
  parameters.
\<close>

datatype url = InvalidURL | URL "(string \<times> string) list"

record http_response =
  code :: nat
  content_type :: "string option"
  body :: string

text \<open>
  Everything outside the process: the clock, the environment, the files, 1Password, the
  entropy source, the requests sent to the local listener before its timeout, the
  remote endpoints, and a log of what the process did to them. Token files live in
  \<open>token_files\<close> under their path; \<^verbatim>\<open>.gitignore\<close> and \<^verbatim>\<open>credentials.json\<close> have other
  base names and are kept apart. Directories are implicit, so \<^verbatim>\<open>fs.mkdir\<close> changes
  nothing here. \<open>now\<close> is what \<^verbatim>\<open>Date.now()\<close> returns, in milliseconds.
\<close>

record world =
  now :: int
  cwd :: string
  homedir :: string
  xdg_config_home :: "string option"
  credentials_file :: "cred_file option"
  op_available :: bool
  op_read :: "string \<Rightarrow> string option"
  token_files :: "string \<Rightarrow> stored option"
  gitignore :: "string option"
  entropy :: "nat \<Rightarrow> byte"
  entropy_pos :: nat
  sha256 :: "byte list \<Rightarrow> byte list"
  callbacks :: "url list"
  token_endpoint :: "token_request \<Rightarrow> token_response"
  api_endpoint :: "api_request \<Rightarrow> TwitterUser list api_response"
  http_log :: "http_call list"
  browser_log :: "(string \<times> (string \<times> string) list) list"
  served :: "http_response list"
  listening :: bool

section \<open>Configuration\<close>

definition OP_CLIENT_ID_REF :: string where
  "OP_CLIENT_ID_REF = ''op://Development/Twitter Client ID/notesPlain''"

definition OP_CLIENT_SECRET_REF :: string where
  "OP_CLIENT_SECRET_REF = ''op://Development/Twitter Client Secret/notesPlain''"

definition getGlobalConfigDir :: "world \<Rightarrow> string" where
  "getGlobalConfigDir w =
     path_join (or_str (xdg_config_home w) (path_join (homedir w) ''.config'')) ''twitter-skill''"

definition CREDENTIALS_PATH :: "world \<Rightarrow> string" where
  "CREDENTIALS_PATH w = path_join (getGlobalConfigDir w) ''credentials.json''"

definition PROJECT_TOKEN_DIR :: string where
  "PROJECT_TOKEN_DIR = ''.claude''"

definition PROJECT_TOKEN_FILE :: string where
  "PROJECT_TOKEN_FILE = ''twitter-skill.local.json''"

definition GLOBAL_TOKEN_FILE :: string where
  "GLOBAL_TOKEN_FILE = ''tokens.json''"

definition getProjectTokenPath :: "world \<Rightarrow> string" where
  "getProjectTokenPath w = path_join (path_join (cwd w) PROJECT_TOKEN_DIR) PROJECT_TOKEN_FILE"

definition getGlobalTokenPath :: "world \<Rightarrow> string" where
  "getGlobalTokenPath w = path_join (getGlobalConfigDir w) GLOBAL_TOKEN_FILE"

definition TWITTER_AUTH_URL :: string where
  "TWITTER_AUTH_URL = ''https://twitter.com/i/oauth2/authorize''"

definition TWITTER_TOKEN_URL :: string where
  "TWITTER_TOKEN_URL = ''https://api.twitter.com/2/oauth2/token''"

definition CALLBACK_URL :: string where
  "CALLBACK_URL = ''http://127.0.0.1:3000/callback''"

definition SCOPES :: string where
  "SCOPES = ''tweet.read tweet.write users.read list.read list.write like.read like.write offline.access''"

section \<open>Credential and token management\<close>

definition loadCredentialsFrom1Password :: "world \<Rightarrow> Credentials option" where
  "loadCredentialsFrom1Password w =
     (let clientId = map_option trim (op_read w OP_CLIENT_ID_REF);
          clientSecret = map_option trim (op_read w OP_CLIENT_SECRET_REF)
      in if truthy clientId \<and> truthy clientSecret
         then Some \<lparr>client_id = the clientId, client_secret = the clientSecret\<rparr>
         else None)"

definition no_credentials_message :: "world \<Rightarrow> string" where
  "no_credentials_message w =
     ''No credentials found. Run: pnpm tsx scripts/twitter.ts setup'' @ nl @
     ''Credentials will be saved to: '' @ CREDENTIALS_PATH w"

definition credentials_from_file :: "world \<Rightarrow> Credentials option" where
  "credentials_from_file w =
     (case credentials_file w of
        Some (CredDoc cid csec) \<Rightarrow>
          (if truthy cid \<and> truthy csec
           then Some \<lparr>client_id = the cid, client_secret = the csec\<rparr> else None)
      | _ \<Rightarrow> None)"

definition loadCredentials :: "world \<Rightarrow> error + Credentials" where
  "loadCredentials w =
     (case credentials_from_file w of
        Some c \<Rightarrow> Inr c
      | None \<Rightarrow>
          (case (if op_available w then loadCredentialsFrom1Password w else None) of
             Some c \<Rightarrow> Inr c
           | None \<Rightarrow> Inl (Error (no_credentials_message w))))"

definition findTokenPath :: "world \<Rightarrow> string option" where
  "findTokenPath w =
     (let projectPath = getProjectTokenPath w in
      if token_files w projectPath \<noteq> None then Some projectPath
      else let globalPath = getGlobalTokenPath w in
           if token_files w globalPath \<noteq> None then Some globalPath else None)"

text \<open>The lookup in the copy of the module that stores tokens in the project only.\<close>

definition findTokenPath_project_only :: "world \<Rightarrow> string option" where
  "findTokenPath_project_only w =
     (let projectPath = getProjectTokenPath w in
      if token_files w projectPath \<noteq> None then Some projectPath else None)"

definition token_not_found_message :: "world \<Rightarrow> string" where
  "token_not_found_message w =
     ''Token not found. Run: pnpm tsx scripts/twitter.ts auth'' @ nl @
     ''Looked in:'' @ nl @
     ''  - '' @ getProjectTokenPath w @ '' (project-local)'' @ nl @
     ''  - '' @ getGlobalTokenPath w @ '' (global fallback)''"

definition read_token_file :: "world \<Rightarrow> string \<Rightarrow> error + TokenData" where
  "read_token_file w tokenPath =
     (case token_files w tokenPath of
        None \<Rightarrow> Inl (SystemError ''ENOENT'')
      | Some (Unparsable m) \<Rightarrow> Inl (SyntaxError m)
      | Some (Doc t) \<Rightarrow> Inr t)"

definition loadToken :: "world \<Rightarrow> error + TokenData" where
  "loadToken w =
     (case findTokenPath w of
        None \<Rightarrow> Inl (Error (token_not_found_message w))
      | Some tokenPath \<Rightarrow> read_token_file w tokenPath)"

definition saveToken :: "TokenData \<Rightarrow> bool \<Rightarrow> world \<Rightarrow> world" where
  "saveToken tokenData global w =
     (let tokenPath = (if global then getGlobalTokenPath w else getProjectTokenPath w)
      in w\<lparr>token_files := (token_files w)(tokenPath \<mapsto> Doc tokenData)\<rparr>)"

section \<open>Check authentication status\<close>

record auth_status =
  authenticated :: bool
  expiresAt :: "int option"
  status_error :: "string option"

definition checkAuth :: "world \<Rightarrow> auth_status" where
  "checkAuth w =
     (case loadToken w of
        Inr tokenData \<Rightarrow>
          (let isExpired = (expires_at tokenData < now w)
           in \<lparr>authenticated = \<not> isExpired, expiresAt = Some (expires_at tokenData),
               status_error = None\<rparr>)
      | Inl e \<Rightarrow> \<lparr>authenticated = False, expiresAt = None, status_error = Some (message e)\<rparr>)"

section \<open>Encodings\<close>

text \<open>
  \<^verbatim>\<open>Buffer.toString("base64")\<close> and \<^verbatim>\<open>toString("base64url")\<close> (RFC 4648): three bytes
  become four characters of the alphabet; a final group of one or two bytes becomes two
  or three characters, followed by \<^verbatim>\<open>=\<close> padding in the standard variant only.
\<close>

definition base64_alphabet :: string where
  "base64_alphabet = ''ABCDEFGHIJKLMNOPQRSTUVWXYZabcdefghijklmnopqrstuvwxyz0123456789+/''"

definition base64url_alphabet :: string where
  "base64url_alphabet = ''ABCDEFGHIJKLMNOPQRSTUVWXYZabcdefghijklmnopqrstuvwxyz0123456789-_''"

fun b64 :: "string \<Rightarrow> bool \<Rightarrow> byte list \<Rightarrow> string" where
  "b64 al pad (a # b # c # rest) =
     [al ! (unat a div 4), al ! ((unat a mod 4) * 16 + unat b div 16),
      al ! ((unat b mod 16) * 4 + unat c div 64), al ! (unat c mod 64)] @ b64 al pad rest"
| "b64 al pad [a, b] =
     [al ! (unat a div 4), al ! ((unat a mod 4) * 16 + unat b div 16),
      al ! ((unat b mod 16) * 4)] @ (if pad then ''='' else [])"
| "b64 al pad [a] =
     [al ! (unat a div 4), al ! ((unat a mod 4) * 16)] @ (if pad then ''=='' else [])"
| "b64 al pad [] = []"

definition base64 :: "byte list \<Rightarrow> string" where
  "base64 bs = b64 base64_alphabet True bs"

definition base64url :: "byte list \<Rightarrow> string" where
  "base64url bs = b64 base64url_alphabet False bs"

definition hex_digits :: string where
  "hex_digits = ''0123456789abcdef''"

definition hex_byte :: "byte \<Rightarrow> string" where
  "hex_byte b = [hex_digits ! (unat b div 16), hex_digits ! (unat b mod 16)]"

definition hex :: "byte list \<Rightarrow> string" where
  "hex bs = concat (map hex_byte bs)"

text \<open>The bytes of a string of one-byte characters, as \<^verbatim>\<open>Buffer.from\<close> and
  \<^verbatim>\<open>hash.update\<close> take them.\<close>

definition utf8 :: "string \<Rightarrow> byte list" where
  "utf8 s = map (\<lambda>c. word_of_nat (of_char c)) s"

section \<open>PKCE helpers\<close>

definition randomBytes :: "nat \<Rightarrow> world \<Rightarrow> byte list \<times> world" where
  "randomBytes n w =
     (map (entropy w) [entropy_pos w ..< entropy_pos w + n],
      w\<lparr>entropy_pos := entropy_pos w + n\<rparr>)"

definition generateCodeVerifier :: "world \<Rightarrow> string \<times> world" where
  "generateCodeVerifier w = (let (bs, w') = randomBytes 32 w in (base64url bs, w'))"

definition generateCodeChallenge :: "world \<Rightarrow> string \<Rightarrow> string" where
  "generateCodeChallenge w verifier = base64url (sha256 w (utf8 verifier))"

definition generateState :: "world \<Rightarrow> string \<times> world" where
  "generateState w = (let (bs, w') = randomBytes 16 w in (hex bs, w'))"

section \<open>Token refresh\<close>

definition basicAuth :: "Credentials \<Rightarrow> string" where
  "basicAuth credentials = base64 (utf8 (client_id credentials @ '':'' @ client_secret credentials))"

definition token_post :: "token_request \<Rightarrow> world \<Rightarrow> token_response \<times> world" where
  "token_post req w = (token_endpoint w req, w\<lparr>http_log := http_log w @ [TokenPost req]\<rparr>)"

definition refresh_request :: "Credentials \<Rightarrow> string \<Rightarrow> token_request" where
  "refresh_request credentials refreshToken =
     \<lparr>authorization = ''Basic '' @ basicAuth credentials,
      form = [(''grant_type'', ''refresh_token''), (''refresh_token'', refreshToken)]\<rparr>"

definition token_data_of :: "world \<Rightarrow> string \<Rightarrow> string \<Rightarrow> token_response \<Rightarrow> TokenData" where
  "token_data_of w at rt r =
     \<lparr>access_token = at, refresh_token = rt,
      expires_at = now w + or_num (resp_expires_in r) 7200 * 1000,
      scope = or_str (resp_scope r) SCOPES,
      token_type = or_str (resp_token_type r) ''bearer''\<rparr>"

definition refreshAccessToken ::
  "Credentials \<Rightarrow> string \<Rightarrow> string \<Rightarrow> world \<Rightarrow> (error + TokenData) \<times> world" where
  "refreshAccessToken credentials refreshToken tokenPath w =
     (let (data, w1) = token_post (refresh_request credentials refreshToken) w in
      if truthy (resp_error data)
      then (Inl (Error (''Token refresh failed: '' @
                        or_str (resp_error_description data) (the (resp_error data)))), w1)
      else if \<not> truthy (resp_access_token data) \<or> \<not> truthy (resp_refresh_token data)
      then (Inl (Error ''Invalid token response from Twitter''), w1)
      else
        let tokenData = token_data_of w1 (the (resp_access_token data))
                          (the (resp_refresh_token data)) data;
            isGlobal = (tokenPath = getGlobalTokenPath w1)
        in (Inr tokenData, saveToken tokenData isGlobal w1))"

section \<open>Get a valid access token, refreshing when near expiry\<close>

definition bufferMs :: int where
  "bufferMs = 5 * 60 * 1000"

definition getValidAccessToken :: "world \<Rightarrow> (error + string) \<times> world" where
  "getValidAccessToken w =
     (case loadCredentials w of
        Inl e \<Rightarrow> (Inl e, w)
      | Inr credentials \<Rightarrow>
          (case findTokenPath w of
             None \<Rightarrow> (Inl (Error (token_not_found_message w)), w)
           | Some tokenPath \<Rightarrow>
               (case read_token_file w tokenPath of
                  Inl e \<Rightarrow> (Inl e, w)
                | Inr tokenData \<Rightarrow>
                    if expires_at tokenData < now w + bufferMs
                    then (case refreshAccessToken credentials (refresh_token tokenData) tokenPath w of
                            (Inl e, w') \<Rightarrow> (Inl e, w')
                          | (Inr refreshed, w') \<Rightarrow> (Inr (access_token refreshed), w'))
                    else (Inr (access_token tokenData), w))))"

section \<open>Gitignore management\<close>

text \<open>
  \<open>gitignore\<close> is the content of the project's \<^verbatim>\<open>.gitignore\<close>, \<open>None\<close> when the file
  does not exist (\<^verbatim>\<open>ENOENT\<close>); other read errors, which the source rethrows, are not
  modelled.
\<close>

definition gitignore_pattern :: string where
  "gitignore_pattern = ''.claude/*.local.*''"

definition gitignore_entry :: string where
  "gitignore_entry = ''# Twitter skill tokens (per-project auth)'' @ nl @ gitignore_pattern @ nl"

definition ensureGitignore :: "world \<Rightarrow> world" where
  "ensureGitignore w =
     (case gitignore w of
        Some content \<Rightarrow>
          if str_includes content gitignore_pattern then w
          else w\<lparr>gitignore := Some (if endsWith content nl
                                     then content @ nl @ gitignore_entry
                                     else content @ nl @ nl @ gitignore_entry)\<rparr>
      | None \<Rightarrow> w\<lparr>gitignore := Some gitignore_entry\<rparr>)"

section \<open>OAuth 2.0 PKCE flow\<close>

text \<open>
  The request handler of the local listener. It parses the request target, reads four
  query parameters (\<^verbatim>\<open>searchParams.get\<close> returns the first value of a name, as
  \<open>map_of\<close> does), writes one response, may close the server, and may settle the
  promise that \<^verbatim>\<open>performAuth\<close> awaits. An exception thrown by the handler is caught
  nowhere: it leaves the promise as it is and ends the process.
\<close>

datatype settle = Resolve string | Reject error | Uncaught error

record handled =
  response :: http_response
  closes :: bool
  settles :: "settle option"

definition success_page :: string where
  \<open>success_page = nl @
     ''          <html>'' @ nl @
     ''            <body style="font-family: system-ui; display: flex; justify-content: center; align-items: center; height: 100vh; margin: 0;">'' @ nl @
     ''              <div style="text-align: center;">'' @ nl @
     ''                <h1 style="color: #1DA1F2;">'' @ [CHR 0xE2, CHR 0x9C, CHR 0x93] @
       '' Authentication Successful!</h1>'' @ nl @
     ''                <p>You can close this window and return to the terminal.</p>'' @ nl @
     ''              </div>'' @ nl @
     ''            </body>'' @ nl @
     ''          </html>'' @ nl @
     ''        ''\<close>

definition handle_callback :: "string \<Rightarrow> url \<Rightarrow> error + handled" where
  "handle_callback state req =
     (case req of
        InvalidURL \<Rightarrow> Inl (TypeError ''Invalid URL'')
      | URL q \<Rightarrow>
          (let returnedCode = map_of q ''code'';
               returnedState = map_of q ''state'';
               err = map_of q ''error'';
               errorDescription = map_of q ''error_description''
           in
           if truthy err then
             Inr \<lparr>response = \<lparr>code = 400, content_type = Some ''text/html'',
                       body = ''<h1>Error: '' @ the err @ ''</h1><p>'' @ or_str errorDescription [] @
                              ''</p><p>You can close this window.</p>''\<rparr>,
                  closes = True,
                  settles = Some (Reject (Error (the err @ '': '' @ or_str errorDescription [])))\<rparr>
           else if returnedState \<noteq> Some state then
             Inr \<lparr>response = \<lparr>code = 400, content_type = Some ''text/html'',
                       body = ''<h1>Error: State mismatch</h1><p>Possible CSRF attack. You can close this window.</p>''\<rparr>,
                  closes = True,
                  settles = Some (Reject (Error ''State mismatch - possible CSRF attack''))\<rparr>
           else if truthy returnedCode then
             Inr \<lparr>response = \<lparr>code = 200, content_type = Some ''text/html'', body = success_page\<rparr>,
                  closes = True,
                  settles = Some (Resolve (the returnedCode))\<rparr>
           else
             Inr \<lparr>response = \<lparr>code = 404, content_type = None, body = []\<rparr>,
                  closes = False,
                  settles = None\<rparr>))"

text \<open>
  The listener: whether the server still accepts requests, the state of the promise,
  the responses written so far, and the exception that ended the process, if any. The
  requests are taken in order. A request sent after \<^verbatim>\<open>server.close()\<close> is not
  received. A handler that returns adds its response, closes the server if it called
  \<^verbatim>\<open>server.close()\<close>, and settles the promise if it is still pending (\<^verbatim>\<open>resolve\<close> and
  \<^verbatim>\<open>reject\<close> on a settled promise do nothing). A handler that throws ends the process.
\<close>

record listener =
  is_open :: bool
  promise :: "settle option"
  written :: "http_response list"
  uncaught :: "error option"

fun serve :: "string \<Rightarrow> url list \<Rightarrow> listener \<Rightarrow> listener" where
  "serve state [] l = l"
| "serve state (r # rs) l =
     (if \<not> is_open l then l
      else case handle_callback state r of
             Inl e \<Rightarrow> l\<lparr>uncaught := Some e\<rparr>
           | Inr h \<Rightarrow>
               serve state rs
                 (l\<lparr>is_open := \<not> closes h,
                    promise := (case promise l of None \<Rightarrow> settles h | Some s \<Rightarrow> Some s),
                    written := written l @ [response h]\<rparr>))"

text \<open>
  What \<^verbatim>\<open>performAuth\<close> awaits: the server starts open with the promise pending and the
  requests are served; when they leave the promise pending, the five-minute timer closes
  the server and rejects. The result is how the wait ends and the listener at that time.
\<close>

definition awaitCallback :: "string \<Rightarrow> url list \<Rightarrow> settle \<times> listener" where
  "awaitCallback state reqs =
     (let l = serve state reqs \<lparr>is_open = True, promise = None, written = [], uncaught = None\<rparr>
      in case uncaught l of
           Some e \<Rightarrow> (Uncaught e, l)
         | None \<Rightarrow>
             (case promise l of
                Some s \<Rightarrow> (s, l)
              | None \<Rightarrow> (Reject (Error ''Authentication timeout (5 minutes)''),
                         l\<lparr>is_open := False,
                            promise := Some (Reject (Error ''Authentication timeout (5 minutes)''))\<rparr>)))"

definition authUrl :: "Credentials \<Rightarrow> string \<Rightarrow> string \<Rightarrow> string \<times> (string \<times> string) list" where
  "authUrl credentials state codeChallenge =
     (TWITTER_AUTH_URL,
      [(''response_type'', ''code''),
       (''client_id'', client_id credentials),
       (''redirect_uri'', CALLBACK_URL),
       (''scope'', SCOPES),
       (''state'', state),
       (''code_challenge'', codeChallenge),
       (''code_challenge_method'', ''S256'')])"

definition exchange_request :: "Credentials \<Rightarrow> string \<Rightarrow> string \<Rightarrow> token_request" where
  "exchange_request credentials authCode codeVerifier =
     \<lparr>authorization = ''Basic '' @ basicAuth credentials,
      form = [(''code'', authCode), (''grant_type'', ''authorization_code''),
              (''redirect_uri'', CALLBACK_URL), (''code_verifier'', codeVerifier)]\<rparr>"

definition no_refresh_token_message :: string where
  "no_refresh_token_message =
     ''No refresh token received.'' @ nl @
     ''This can happen if you've already authorized this app.'' @ nl @
     ''Fix: Go to https://twitter.com/settings/connected_apps'' @ nl @
     ''     Remove access for this app, then run auth again.''"

text \<open>
  The PKCE session of one authorization attempt, and the flow around it. Where the wait
  ends with an uncaught exception the process is gone; the model ends \<open>performAuth\<close>
  there with that exception. The non-null
  assertion \<^verbatim>\<open>tokenResult.access_token!\<close> has no effect at run time; where the field is
  absent the string-typed record field is written here as the empty string.
\<close>

record PKCESession =
  code_verifier :: string
  code_challenge :: string
  pkce_state :: string

definition generate_session :: "world \<Rightarrow> PKCESession \<times> world" where
  "generate_session w =
     (let (codeVerifier, w1) = generateCodeVerifier w;
          codeChallenge = generateCodeChallenge w1 codeVerifier;
          (state, w2) = generateState w1
      in (\<lparr>code_verifier = codeVerifier, code_challenge = codeChallenge, pkce_state = state\<rparr>, w2))"

definition await_code :: "Credentials \<Rightarrow> PKCESession \<Rightarrow> world \<Rightarrow> settle \<times> world" where
  "await_code credentials session w =
     (let w1 = w\<lparr>listening := True,
                 browser_log := browser_log w @
                   [authUrl credentials (pkce_state session) (code_challenge session)]\<rparr>;
          (outcome, l) = awaitCallback (pkce_state session) (callbacks w1)
      in (outcome, w1\<lparr>listening := is_open l,
                     served := served w1 @ written l,
                     callbacks := []\<rparr>))"

definition exchange_code ::
  "Credentials \<Rightarrow> string \<Rightarrow> string \<Rightarrow> bool \<Rightarrow> world \<Rightarrow> (error + unit) \<times> world" where
  "exchange_code credentials authCode codeVerifier global w =
     (let (tokenResult, w1) = token_post (exchange_request credentials authCode codeVerifier) w in
      if truthy (resp_error tokenResult)
      then (Inl (Error (''Token exchange failed: '' @
                        or_str (resp_error_description tokenResult) (the (resp_error tokenResult)))), w1)
      else if \<not> truthy (resp_refresh_token tokenResult)
      then (Inl (Error no_refresh_token_message), w1)
      else
        let tokenData = token_data_of w1 (or_str (resp_access_token tokenResult) [])
                          (the (resp_refresh_token tokenResult)) tokenResult
        in (Inr (), saveToken tokenData global w1))"

definition performAuth :: "bool \<Rightarrow> world \<Rightarrow> (error + unit) \<times> world" where
  "performAuth global w =
     (case loadCredentials w of
        Inl e \<Rightarrow> (Inl e, w)
      | Inr credentials \<Rightarrow>
          (let w1 = (if \<not> global then ensureGitignore w else w);
               (session, w2) = generate_session w1;
               (outcome, w3) = await_code credentials session w2
           in case outcome of
                Reject e \<Rightarrow> (Inl e, w3)
              | Uncaught e \<Rightarrow> (Inl e, w3)
              | Resolve authCode \<Rightarrow>
                  exchange_code credentials authCode (code_verifier session) global w3))"

section \<open>API client\<close>

definition TWITTER_API_BASE :: string where
  "TWITTER_API_BASE = ''https://api.twitter.com/2''"

text \<open>
  \<^verbatim>\<open>parseInt(s, 10)\<close>: leading white space, an optional sign, then the longest prefix
  of decimal digits; \<open>None\<close> stands for \<^verbatim>\<open>NaN\<close>, which the arithmetic after it
  propagates.
\<close>

definition is_digit :: "char \<Rightarrow> bool" where
  "is_digit c = (48 \<le> (of_char c :: nat) \<and> (of_char c :: nat) \<le> 57)"

definition digits_value :: "string \<Rightarrow> nat" where
  "digits_value ds = foldl (\<lambda>a c. 10 * a + (of_char c - 48)) 0 ds"

definition parseInt :: "string \<Rightarrow> int option" where
  "parseInt s =
     (let t = dropWhile is_space s;
          neg = (t \<noteq> [] \<and> hd t = CHR ''-'');
          u = (if t \<noteq> [] \<and> (hd t = CHR ''-'' \<or> hd t = CHR ''+'') then tl t else t);
          ds = takeWhile is_digit u
      in if ds = [] then None
         else Some (if neg then - int (digits_value ds) else int (digits_value ds)))"

fun show_nat :: "nat \<Rightarrow> string" where
  "show_nat n =
     (if n < 10 then [char_of (48 + n)]
      else show_nat (n div 10) @ [char_of (48 + n mod 10)])"

fun show_num :: "int option \<Rightarrow> string" where
  "show_num None = ''NaN''"
| "show_num (Some i) = (if i < 0 then ''-'' @ show_nat (nat (- i)) else show_nat (nat i))"

record RateLimitInfo =
  limit :: "int option"
  remaining :: "int option"
  resetAt :: "int option"
  resetInSeconds :: "int option"

definition ceil_div_1000 :: "int \<Rightarrow> int" where
  "ceil_div_1000 x = - ((- x) div 1000)"

definition parseRateLimitHeaders :: "world \<Rightarrow> 'a api_response \<Rightarrow> RateLimitInfo option" where
  "parseRateLimitHeaders w r =
     (if \<not> truthy (rate_limit_limit r) \<or> \<not> truthy (rate_limit_remaining r)
         \<or> \<not> truthy (rate_limit_reset r)
      then None
      else
        let resetTimestamp = map_option (\<lambda>n. n * 1000) (parseInt (the (rate_limit_reset r)))
        in Some \<lparr>limit = parseInt (the (rate_limit_limit r)),
                 remaining = parseInt (the (rate_limit_remaining r)),
                 resetAt = resetTimestamp,
                 resetInSeconds =
                   map_option (\<lambda>t. max 0 (ceil_div_1000 (t - now w))) resetTimestamp\<rparr>)"

record request_options =
  opt_method :: "string option"
  opt_body :: "string option"

definition no_options :: request_options where
  "no_options = \<lparr>opt_method = None, opt_body = None\<rparr>"

text \<open>
  What \<^verbatim>\<open>twitterRequest\<close> returns: the marker \<^verbatim>\<open>{ deleted: true }\<close> for a 204, or
  the JSON body, of which the callers read \<^verbatim>\<open>data\<close>.
\<close>

datatype 'a payload = DeletedMarker | Json "'a option"

fun payload_data :: "'a payload \<Rightarrow> 'a option" where
  "payload_data DeletedMarker = None"
| "payload_data (Json d) = d"

definition api_error_message :: "TwitterUser list api_response \<Rightarrow> RateLimitInfo option \<Rightarrow> string" where
  "api_error_message r rateLimitInfo =
     (let first_error = (case body_errors r of [] \<Rightarrow> None | m # _ \<Rightarrow> m);
          msg = (if truthy (body_detail r) then the (body_detail r)
                 else if truthy (body_title r) then the (body_title r)
                 else if truthy first_error then the first_error
                 else ''API request failed: '' @ show_nat (status r))
      in case rateLimitInfo of
           Some info \<Rightarrow>
             if status r = 429
             then msg @ '' (resets in '' @ show_num (resetInSeconds info) @ ''s)''
             else msg
         | None \<Rightarrow> msg)"

definition twitterRequest ::
  "string \<Rightarrow> request_options \<Rightarrow> world \<Rightarrow> (error + TwitterUser list payload) \<times> world" where
  "twitterRequest endpoint options w =
     (case getValidAccessToken w of
        (Inl e, w1) \<Rightarrow> (Inl e, w1)
      | (Inr token, w1) \<Rightarrow>
          (let req = \<lparr>url = TWITTER_API_BASE @ endpoint, req_method = opt_method options,
                      req_body = opt_body options, bearer = token\<rparr>;
               r = api_endpoint w1 req;
               w2 = w1\<lparr>http_log := http_log w1 @ [ApiFetch req]\<rparr>;
               rateLimitInfo = parseRateLimitHeaders w2 r
           in if status r = 204 then (Inr DeletedMarker, w2)
              else if \<not> (200 \<le> status r \<and> status r \<le> 299)
              then (Inl (Error (api_error_message r rateLimitInfo)), w2)
              else (Inr (Json (body_data r)), w2)))"

section \<open>User commands\<close>

fun join :: "string \<Rightarrow> string list \<Rightarrow> string" where
  "join sep [] = []"
| "join sep [x] = x"
| "join sep (x # y # ys) = x @ sep @ join sep (y # ys)"

definition user_fields :: "string list" where
  "user_fields = [''id'', ''name'', ''username'', ''created_at'', ''description'', ''location'',
     ''profile_image_url'', ''protected'', ''verified'', ''verified_type'', ''url'',
     ''public_metrics'']"

definition getUsersByIds :: "string list \<Rightarrow> world \<Rightarrow> (error + TwitterUser list) \<times> world" where
  "getUsersByIds userIds w =
     (if length userIds = 0 then (Inr [], w)
      else if length userIds > 100 then (Inl (Error ''Maximum 100 user IDs per request''), w)
      else
        (case twitterRequest (''/users?ids='' @ join '','' userIds @ ''&user.fields='' @
                              join '','' user_fields) no_options w of
           (Inl e, w') \<Rightarrow> (Inl e, w')
         | (Inr r, w') \<Rightarrow>
             (Inr (case payload_data r of None \<Rightarrow> [] | Some users \<Rightarrow> users), w')))"

section \<open>Concrete scenarios\<close>

text \<open>
  A small world on which the functions above are run: credentials \<^verbatim>\<open>abc\<close>/\<^verbatim>\<open>xyz\<close> in the
  credentials file, no token files, a token endpoint that answers a refresh grant with
  \<^verbatim>\<open>T2\<close>/\<^verbatim>\<open>R2\<close> and any other grant with \<^verbatim>\<open>T1\<close>/\<^verbatim>\<open>R1\<close>, an entropy source that counts
  upwards, and a stand-in digest.
\<close>

definition creds0 :: Credentials where
  "creds0 = \<lparr>client_id = ''abc'', client_secret = ''xyz''\<rparr>"

definition grant :: "string \<Rightarrow> string \<Rightarrow> token_response" where
  "grant at rt = \<lparr>resp_access_token = Some at, resp_refresh_token = Some rt,
     resp_expires_in = Some 7200, resp_scope = None, resp_token_type = None,
     resp_error = None, resp_error_description = None\<rparr>"

definition world0 :: world where
  "world0 = \<lparr>now = 1000000, cwd = ''/proj'', homedir = ''/home/u'', xdg_config_home = None,
     credentials_file = Some (CredDoc (Some ''abc'') (Some ''xyz'')),
     op_available = False, op_read = (\<lambda>_. None),
     token_files = Map.empty, gitignore = None,
     entropy = (\<lambda>i. word_of_nat i), entropy_pos = 0,
     sha256 = (\<lambda>bs. take 32 (bs @ replicate 32 0)),
     callbacks = [],
     token_endpoint = (\<lambda>req. if map_of (form req) ''grant_type'' = Some ''refresh_token''
                             then grant ''T2'' ''R2'' else grant ''T1'' ''R1''),
     api_endpoint = (\<lambda>_. \<lparr>status = 200, rate_limit_limit = None, rate_limit_remaining = None,
        rate_limit_reset = None, body_data = None, body_detail = None, body_title = None,
        body_errors = []\<rparr>),
     http_log = [], browser_log = [], served = [], listening = False\<rparr>"

definition token_at :: "int \<Rightarrow> TokenData" where
  "token_at e = \<lparr>access_token = ''T1'', refresh_token = ''R1'', expires_at = e,
     scope = SCOPES, token_type = ''bearer''\<rparr>"

definition project_path0 :: string where
  "project_path0 = ''/proj/.claude/twitter-skill.local.json''"

definition global_path0 :: string where
  "global_path0 = ''/home/u/.config/twitter-skill/tokens.json''"

definition world_files :: "(string \<times> stored) list \<Rightarrow> world" where
  "world_files fs = world0\<lparr>token_files := map_of fs\<rparr>"

definition world_empty_error :: world where
  "world_empty_error =
     world0\<lparr>token_endpoint := (\<lambda>_. (grant ''T2'' ''R2'')\<lparr>resp_error := Some []\<rparr>)\<rparr>"

definition denied :: token_response where
  "denied = \<lparr>resp_access_token = None, resp_refresh_token = None,
     resp_expires_in = None, resp_scope = None, resp_token_type = None,
     resp_error = Some ''invalid_grant'', resp_error_description = None\<rparr>"

definition world_denied :: world where
  "world_denied = (world_files [(project_path0, Doc (token_at 0))])\<lparr>token_endpoint := (\<lambda>_. denied)\<rparr>"

definition state0 :: string where
  "state0 = ''202122232425262728292a2b2c2d2e2f''"

definition verifier0 :: string where
  "verifier0 = ''AAECAwQFBgcICQoLDA0ODxAREhMUFRYXGBkaGxwdHh8''"

definition world_flow :: "url list \<Rightarrow> token_response \<Rightarrow> world" where
  "world_flow qs r = world0\<lparr>callbacks := qs, token_endpoint := (\<lambda>_. r)\<rparr>"

definition not_found :: handled where
  "not_found = \<lparr>response = \<lparr>code = 404, content_type = None, body = []\<rparr>,
                 closes = False, settles = None\<rparr>"

section \<open>Properties of the token store\<close>

lemma paths0:
  "getProjectTokenPath (world_files fs) = project_path0"
  "getGlobalTokenPath (world_files fs) = global_path0"
  by (simp_all add: getProjectTokenPath_def getGlobalTokenPath_def getGlobalConfigDir_def
      path_join_def world_files_def world0_def project_path0_def global_path0_def
      PROJECT_TOKEN_DIR_def PROJECT_TOKEN_FILE_def GLOBAL_TOKEN_FILE_def)

lemma paths0_neq: "project_path0 \<noteq> global_path0"
  by (simp add: project_path0_def global_path0_def)

lemma files0: "token_files (world_files fs) = map_of fs"
  by (simp add: world_files_def)

lemma now0: "now (world_files fs) = 1000000"
  by (simp add: world_files_def world0_def)

text \<open>
  Claim C6. Token lookup checks the project-scoped path first and the global path second:
  when the project file exists (whether or not the global one does) \<open>findTokenPath\<close>
  returns the project path; when only the global file exists it returns the global path;
  and \<open>loadToken\<close> fails with the token-not-found error exactly when neither file exists.
\<close>

theorem findTokenPath_precedence:
  "(token_files w (getProjectTokenPath w) \<noteq> None \<longrightarrow>
      findTokenPath w = Some (getProjectTokenPath w))
   \<and> (token_files w (getProjectTokenPath w) = None \<and> token_files w (getGlobalTokenPath w) \<noteq> None \<longrightarrow>
      findTokenPath w = Some (getGlobalTokenPath w))
   \<and> (loadToken w = Inl (Error (token_not_found_message w)) \<longleftrightarrow>
      token_files w (getProjectTokenPath w) = None \<and> token_files w (getGlobalTokenPath w) = None)"
  by (auto simp: findTokenPath_def loadToken_def read_token_file_def Let_def
           split: option.splits stored.splits)

theorem findTokenPath_precedence_witness:
  "findTokenPath (world_files [(project_path0, Doc (token_at 0)), (global_path0, Unparsable ''x'')])
     = Some project_path0
   \<and> findTokenPath (world_files [(global_path0, Doc (token_at 0))]) = Some global_path0
   \<and> loadToken (world_files []) = Inl (Error (token_not_found_message (world_files [])))"
  using findTokenPath_precedence [of "world_files [(project_path0, Doc (token_at 0)), (global_path0, Unparsable ''x'')]"]
        findTokenPath_precedence [of "world_files [(global_path0, Doc (token_at 0))]"]
        findTokenPath_precedence [of "world_files []"]
  by (simp add: paths0 files0 paths0_neq)

section \<open>Properties of the authentication check\<close>

text \<open>
  Claim C9. \<open>checkAuth\<close> never throws: the \<^verbatim>\<open>try\<close> block encloses everything, so the
  model is a total function into the status record. It reports \<open>authenticated\<close> exactly
  when a token record loads and its \<open>expires_at\<close> is not strictly less than the current
  time; whenever a record loads, \<open>expiresAt\<close> is that timestamp; and when loading fails,
  for whatever reason, the result is \<open>authenticated = False\<close> with the error's message.
\<close>

theorem checkAuth_never_throws:
  "(authenticated (checkAuth w) \<longleftrightarrow> (\<exists>t. loadToken w = Inr t \<and> \<not> expires_at t < now w))
   \<and> (\<forall>t. loadToken w = Inr t \<longrightarrow>
         expiresAt (checkAuth w) = Some (expires_at t) \<and> status_error (checkAuth w) = None)
   \<and> (\<forall>e. loadToken w = Inl e \<longrightarrow>
         checkAuth w = \<lparr>authenticated = False, expiresAt = None, status_error = Some (message e)\<rparr>)"
  by (auto simp: checkAuth_def Let_def split: sum.splits)

lemma loadToken_project0:
  "loadToken (world_files [(project_path0, Doc t)]) = Inr t"
  "loadToken (world_files [(project_path0, Unparsable m)]) = Inl (SyntaxError m)"
  by (simp_all add: loadToken_def findTokenPath_def read_token_file_def paths0 files0)

theorem checkAuth_never_throws_witness:
  "loadToken (world_files [(project_path0, Doc (token_at 1000000))]) = Inr (token_at 1000000)
   \<and> authenticated (checkAuth (world_files [(project_path0, Doc (token_at 1000000))]))
   \<and> expiresAt (checkAuth (world_files [(project_path0, Doc (token_at 1000000))])) = Some 1000000
   \<and> loadToken (world_files [(project_path0, Unparsable ''Unexpected token'')])
       = Inl (SyntaxError ''Unexpected token'')
   \<and> checkAuth (world_files [(project_path0, Unparsable ''Unexpected token'')])
       = \<lparr>authenticated = False, expiresAt = None, status_error = Some ''Unexpected token''\<rparr>"
  using checkAuth_never_throws [of "world_files [(project_path0, Doc (token_at 1000000))]"]
        checkAuth_never_throws [of "world_files [(project_path0, Unparsable ''Unexpected token'')]"]
  by (simp add: loadToken_project0 token_at_def now0)

section \<open>Properties of the user lookup\<close>

text \<open>
  Claim C10. \<open>getUsersByIds\<close> returns the empty list for an empty list of user IDs, and
  fails with the error \<^verbatim>\<open>Maximum 100 user IDs per request\<close> for more than 100 IDs; in
  both cases the world is returned as it was, so no API request (and no token refresh)
  has been performed.
\<close>

theorem getUsersByIds_guards:
  "getUsersByIds [] w = (Inr [], w)
   \<and> (length userIds > 100 \<longrightarrow>
        getUsersByIds userIds w = (Inl (Error ''Maximum 100 user IDs per request''), w))"
  by (auto simp: getUsersByIds_def)

theorem getUsersByIds_guards_witness:
  "length (replicate 101 ''1'') > 100 \<and>
   getUsersByIds (replicate 101 ''1'') world0
     = (Inl (Error ''Maximum 100 user IDs per request''), world0)"
  using getUsersByIds_guards [of world0 "replicate 101 ''1''"] by simp

section \<open>Properties of the token lifecycle\<close>

lemma refreshAccessToken_log:
  "http_log (snd (refreshAccessToken c rt p w)) = http_log w @ [TokenPost (refresh_request c rt)]"
  by (simp add: refreshAccessToken_def token_post_def saveToken_def Let_def)

lemma refreshAccessToken_saved:
  assumes "refreshAccessToken c rt p w = (Inr t, w')"
  shows "token_files w' = (token_files w)((if p = getGlobalTokenPath w then getGlobalTokenPath w
                                            else getProjectTokenPath w) \<mapsto> Doc t)"
  using assms
  by (auto simp: refreshAccessToken_def token_post_def saveToken_def Let_def
      getGlobalTokenPath_def getProjectTokenPath_def getGlobalConfigDir_def split: if_splits)

lemma findTokenPath_cases:
  "findTokenPath w = Some p \<Longrightarrow> p = getProjectTokenPath w \<or> p = getGlobalTokenPath w"
  by (auto simp: findTokenPath_def Let_def split: if_splits)

text \<open>
  Claim C1, as the code has it. For a loaded token record (credentials and record both
  load), \<open>getValidAccessToken\<close> posts a refresh grant to the token endpoint exactly
  when \<open>expires_at < now + 5 minutes\<close>. Without a refresh it returns the
  \<open>access_token\<close> of the loaded record and changes nothing; after a successful refresh
  it returns the \<open>access_token\<close> of the refreshed record, which now is the content of
  the token file; when the refresh fails, it returns no token and the refresh error is
  passed on.
\<close>

theorem getValidAccessToken_refresh_window:
  assumes "loadCredentials w = Inr credentials"
      and "findTokenPath w = Some tokenPath"
      and "read_token_file w tokenPath = Inr tokenData"
  shows "http_log (snd (getValidAccessToken w)) =
           (if expires_at tokenData < now w + 5 * 60 * 1000
            then http_log w @ [TokenPost (refresh_request credentials (refresh_token tokenData))]
            else http_log w)
         \<and> (\<not> expires_at tokenData < now w + 5 * 60 * 1000 \<longrightarrow>
              getValidAccessToken w = (Inr (access_token tokenData), w))
         \<and> (\<forall>refreshed w'. expires_at tokenData < now w + 5 * 60 * 1000 \<and>
              refreshAccessToken credentials (refresh_token tokenData) tokenPath w = (Inr refreshed, w') \<longrightarrow>
              getValidAccessToken w = (Inr (access_token refreshed), w') \<and>
              token_files w' tokenPath = Some (Doc refreshed))
         \<and> (\<forall>e w'. expires_at tokenData < now w + 5 * 60 * 1000 \<and>
              refreshAccessToken credentials (refresh_token tokenData) tokenPath w = (Inl e, w') \<longrightarrow>
              getValidAccessToken w = (Inl e, w'))"
proof -
  let ?near = "expires_at tokenData < now w + 5 * 60 * 1000"
  let ?r = "refreshAccessToken credentials (refresh_token tokenData) tokenPath w"
  have unfold: "getValidAccessToken w =
      (if ?near then (case ?r of (Inl e, w') \<Rightarrow> (Inl e, w') | (Inr t, w') \<Rightarrow> (Inr (access_token t), w'))
       else (Inr (access_token tokenData), w))"
    using assms by (simp add: getValidAccessToken_def bufferMs_def)
  have snd_r: "snd (case ?r of (Inl e, w') \<Rightarrow> (Inl e, w') | (Inr t, w') \<Rightarrow> (Inr (access_token t), w')) = snd ?r"
    by (simp split: prod.splits sum.splits)
  have log: "http_log (snd (getValidAccessToken w)) =
           (if ?near
            then http_log w @ [TokenPost (refresh_request credentials (refresh_token tokenData))]
            else http_log w)"
    unfolding unfold using snd_r by (simp add: refreshAccessToken_log)
  have saved: "token_files w' tokenPath = Some (Doc refreshed)"
    if "?r = (Inr refreshed, w')" for refreshed w'
    using refreshAccessToken_saved [OF that] findTokenPath_cases [OF assms(2)] by auto
  show ?thesis
    using log saved unfold by (auto split: prod.splits sum.splits)
qed


lemma creds_loaded0: "loadCredentials (world_files fs) = Inr creds0"
  by (simp add: loadCredentials_def credentials_from_file_def world_files_def world0_def creds0_def)

lemma found_project0: "findTokenPath (world_files [(project_path0, d)]) = Some project_path0"
  by (simp add: findTokenPath_def paths0 files0)

lemma read_project0: "read_token_file (world_files [(project_path0, Doc t)]) project_path0 = Inr t"
  by (simp add: read_token_file_def files0)

lemma refresh0:
  "fst (refreshAccessToken creds0 ''R1'' project_path0 (world_files fs))
     = Inr \<lparr>access_token = ''T2'', refresh_token = ''R2'', expires_at = 8200000,
            scope = SCOPES, token_type = ''bearer''\<rparr>"
  by (simp add: refreshAccessToken_def token_post_def refresh_request_def token_data_of_def
      world_files_def world0_def grant_def Let_def)

theorem getValidAccessToken_refresh_window_witness:
  "loadCredentials (world_files [(project_path0, Doc (token_at 1240000))]) = Inr creds0
   \<and> findTokenPath (world_files [(project_path0, Doc (token_at 1240000))]) = Some project_path0
   \<and> read_token_file (world_files [(project_path0, Doc (token_at 1240000))]) project_path0
        = Inr (token_at 1240000)
   \<and> http_log (snd (getValidAccessToken (world_files [(project_path0, Doc (token_at 1240000))])))
        = [TokenPost (refresh_request creds0 ''R1'')]
   \<and> fst (getValidAccessToken (world_files [(project_path0, Doc (token_at 1240000))])) = Inr ''T2''
   \<and> getValidAccessToken (world_files [(project_path0, Doc (token_at 1360000))])
        = (Inr ''T1'', world_files [(project_path0, Doc (token_at 1360000))])"
proof -
  let ?w4 = "world_files [(project_path0, Doc (token_at 1240000))]"
  let ?w6 = "world_files [(project_path0, Doc (token_at 1360000))]"
  obtain r w' where r: "refreshAccessToken creds0 ''R1'' project_path0 ?w4 = (Inr r, w')"
    and at: "access_token r = ''T2''"
    using refresh0 [of "[(project_path0, Doc (token_at 1240000))]"]
    by (cases "refreshAccessToken creds0 ''R1'' project_path0 ?w4") auto
  have near: "expires_at (token_at 1240000) < now ?w4 + 5 * 60 * 1000"
    by (simp add: token_at_def now0)
  have far: "\<not> expires_at (token_at 1360000) < now ?w6 + 5 * 60 * 1000"
    by (simp add: token_at_def now0)
  have rt: "refresh_token (token_at 1240000) = ''R1''" "access_token (token_at 1360000) = ''T1''"
    by (simp_all add: token_at_def)
  have log0: "http_log ?w4 = []"
    by (simp add: world_files_def world0_def)
  note t4 = getValidAccessToken_refresh_window [OF creds_loaded0 found_project0 read_project0,
            of "token_at 1240000"]
  note t6 = getValidAccessToken_refresh_window [OF creds_loaded0 found_project0 read_project0,
            of "token_at 1360000"]
  have a: "http_log (snd (getValidAccessToken ?w4)) = [TokenPost (refresh_request creds0 ''R1'')]"
    using t4 [THEN conjunct1] near by (simp add: rt log0)
  have b: "fst (getValidAccessToken ?w4) = Inr ''T2''"
    using t4 near r at by (simp add: rt)
  have c: "getValidAccessToken ?w6 = (Inr ''T1'', ?w6)"
    using t6 far by (simp add: rt)
  show ?thesis
    using a b c by (simp add: creds_loaded0 found_project0 read_project0)
qed

lemma saveToken_paths:
  "getProjectTokenPath (saveToken t g w) = getProjectTokenPath w"
  "getGlobalTokenPath (saveToken t g w) = getGlobalTokenPath w"
  by (simp_all add: saveToken_def getProjectTokenPath_def getGlobalTokenPath_def
      getGlobalConfigDir_def Let_def)

lemma token_post_paths:
  "getProjectTokenPath (snd (token_post r w)) = getProjectTokenPath w"
  "getGlobalTokenPath (snd (token_post r w)) = getGlobalTokenPath w"
  "token_files (snd (token_post r w)) = token_files w"
  "fst (token_post r w) = token_endpoint w r"
  "now (snd (token_post r w)) = now w"
  by (simp_all add: token_post_def getProjectTokenPath_def getGlobalTokenPath_def
      getGlobalConfigDir_def)

lemma refreshAccessToken_paths:
  "getProjectTokenPath (snd (refreshAccessToken c rt p w)) = getProjectTokenPath w"
  "getGlobalTokenPath (snd (refreshAccessToken c rt p w)) = getGlobalTokenPath w"
  by (simp_all add: refreshAccessToken_def saveToken_def token_post_def Let_def
      getProjectTokenPath_def getGlobalTokenPath_def getGlobalConfigDir_def)

lemma loadToken_after_save:
  assumes "findTokenPath w = Some p"
      and "token_files w' = (token_files w)((if p = getGlobalTokenPath w then getGlobalTokenPath w
                                             else getProjectTokenPath w) \<mapsto> Doc t)"
      and "getProjectTokenPath w' = getProjectTokenPath w"
      and "getGlobalTokenPath w' = getGlobalTokenPath w"
  shows "loadToken w' = Inr t"
  using assms
  by (auto simp: loadToken_def findTokenPath_def read_token_file_def Let_def split: if_splits)

lemma refreshAccessToken_success_iff:
  "(\<exists>t w'. refreshAccessToken c rt p w = (Inr t, w')) \<longleftrightarrow>
     \<not> truthy (resp_error (token_endpoint w (refresh_request c rt)))
     \<and> truthy (resp_access_token (token_endpoint w (refresh_request c rt)))
     \<and> truthy (resp_refresh_token (token_endpoint w (refresh_request c rt)))"
  by (auto simp: refreshAccessToken_def token_post_def Let_def)

lemma refreshAccessToken_success:
  assumes "refreshAccessToken c rt p w = (Inr t, w')"
  shows "resp_access_token (token_endpoint w (refresh_request c rt)) = Some (access_token t)"
    and "resp_refresh_token (token_endpoint w (refresh_request c rt)) = Some (refresh_token t)"
  using assms
  by (auto simp: refreshAccessToken_def token_post_def Let_def token_data_of_def
      split: if_splits elim!: truthy.elims)

lemma refreshAccessToken_failure:
  assumes "refreshAccessToken c rt p w = (Inl e, w')"
  shows "token_files w' = token_files w"
    and "e = (if truthy (resp_error (token_endpoint w (refresh_request c rt)))
              then Error (''Token refresh failed: '' @
                     or_str (resp_error_description (token_endpoint w (refresh_request c rt)))
                            (the (resp_error (token_endpoint w (refresh_request c rt)))))
              else Error ''Invalid token response from Twitter'')"
  using assms
  by (auto simp: refreshAccessToken_def token_post_def Let_def split: if_splits)

text \<open>
  Claim C7, as the code has it. The refresh operation succeeds exactly when the response
  of the token endpoint has no truthy \<^verbatim>\<open>error\<close> (the field is absent or the empty
  string) and has a truthy \<^verbatim>\<open>access_token\<close> and a truthy \<^verbatim>\<open>refresh_token\<close> (present
  and not empty). On success the record it returns carries the response's two tokens
  and replaces the token file at the location given (global or project); when that
  location is where the token was found, the next load returns the new record, so the
  old refresh token is not used again. Otherwise it fails, with
  \<^verbatim>\<open>Token refresh failed: ...\<close> for an error field and
  \<^verbatim>\<open>Invalid token response from Twitter\<close> for a missing token, and the token files
  are unchanged.
\<close>

theorem refreshAccessToken_outcome:
  "((\<exists>t w'. refreshAccessToken c rt p w = (Inr t, w')) \<longleftrightarrow>
       \<not> truthy (resp_error (token_endpoint w (refresh_request c rt)))
       \<and> truthy (resp_access_token (token_endpoint w (refresh_request c rt)))
       \<and> truthy (resp_refresh_token (token_endpoint w (refresh_request c rt))))
   \<and> (\<forall>t w'. refreshAccessToken c rt p w = (Inr t, w') \<longrightarrow>
         resp_access_token (token_endpoint w (refresh_request c rt)) = Some (access_token t)
         \<and> resp_refresh_token (token_endpoint w (refresh_request c rt)) = Some (refresh_token t)
         \<and> token_files w' = (token_files w)
              ((if p = getGlobalTokenPath w then getGlobalTokenPath w else getProjectTokenPath w)
                 \<mapsto> Doc t)
         \<and> (findTokenPath w = Some p \<longrightarrow> loadToken w' = Inr t))
   \<and> (\<forall>e w'. refreshAccessToken c rt p w = (Inl e, w') \<longrightarrow>
         token_files w' = token_files w
         \<and> e = (if truthy (resp_error (token_endpoint w (refresh_request c rt)))
                then Error (''Token refresh failed: '' @
                       or_str (resp_error_description (token_endpoint w (refresh_request c rt)))
                              (the (resp_error (token_endpoint w (refresh_request c rt)))))
                else Error ''Invalid token response from Twitter''))"
proof (intro conjI allI impI)
  show "(\<exists>t w'. refreshAccessToken c rt p w = (Inr t, w')) \<longleftrightarrow>
       \<not> truthy (resp_error (token_endpoint w (refresh_request c rt)))
       \<and> truthy (resp_access_token (token_endpoint w (refresh_request c rt)))
       \<and> truthy (resp_refresh_token (token_endpoint w (refresh_request c rt)))"
    by (rule refreshAccessToken_success_iff)
next
  fix t w' assume ok: "refreshAccessToken c rt p w = (Inr t, w')"
  show "resp_access_token (token_endpoint w (refresh_request c rt)) = Some (access_token t)"
    and "resp_refresh_token (token_endpoint w (refresh_request c rt)) = Some (refresh_token t)"
    using refreshAccessToken_success [OF ok] by simp_all
  show saved: "token_files w' = (token_files w)
              ((if p = getGlobalTokenPath w then getGlobalTokenPath w else getProjectTokenPath w)
                 \<mapsto> Doc t)"
    by (rule refreshAccessToken_saved [OF ok])
  have paths: "getProjectTokenPath w' = getProjectTokenPath w"
              "getGlobalTokenPath w' = getGlobalTokenPath w"
    using refreshAccessToken_paths [of c rt p w] ok by simp_all
  show "loadToken w' = Inr t" if "findTokenPath w = Some p"
    by (rule loadToken_after_save [OF that saved paths])
next
  fix e w' assume bad: "refreshAccessToken c rt p w = (Inl e, w')"
  show "token_files w' = token_files w"
    by (rule refreshAccessToken_failure(1) [OF bad])
  show "e = (if truthy (resp_error (token_endpoint w (refresh_request c rt)))
                then Error (''Token refresh failed: '' @
                       or_str (resp_error_description (token_endpoint w (refresh_request c rt)))
                              (the (resp_error (token_endpoint w (refresh_request c rt)))))
                else Error ''Invalid token response from Twitter'')"
    by (rule refreshAccessToken_failure(2) [OF bad])
qed

text \<open>
  The truthiness test matters: a response that does contain an \<^verbatim>\<open>error\<close> field, with
  the empty string as its value, is treated as a success.
\<close>

theorem refresh_succeeds_despite_error_field:
  "resp_error (token_endpoint world_empty_error (refresh_request creds0 ''R1'')) = Some []
   \<and> fst (refreshAccessToken creds0 ''R1'' project_path0 world_empty_error)
       = Inr \<lparr>access_token = ''T2'', refresh_token = ''R2'', expires_at = 8200000,
              scope = SCOPES, token_type = ''bearer''\<rparr>"
  by (simp add: refreshAccessToken_def token_post_def token_data_of_def
      world_empty_error_def world0_def grant_def Let_def)


theorem refreshAccessToken_outcome_witness:
  "(\<exists>t w'. refreshAccessToken creds0 ''R1'' project_path0
              (world_files [(project_path0, Doc (token_at 0))]) = (Inr t, w')
           \<and> findTokenPath (world_files [(project_path0, Doc (token_at 0))]) = Some project_path0
           \<and> access_token t = ''T2'' \<and> refresh_token t = ''R2'' \<and> loadToken w' = Inr t)
   \<and> (\<exists>w'. refreshAccessToken creds0 ''R1'' project_path0 world_denied
              = (Inl (Error ''Token refresh failed: invalid_grant''), w')
           \<and> token_files w' = token_files world_denied)"
proof -
  let ?w = "world_files [(project_path0, Doc (token_at 0))]"
  have ep: "token_endpoint ?w (refresh_request creds0 ''R1'') = grant ''T2'' ''R2''"
    by (simp add: world_files_def world0_def refresh_request_def)
  have "\<exists>t w'. refreshAccessToken creds0 ''R1'' project_path0 ?w = (Inr t, w')"
    using refreshAccessToken_outcome [of creds0 "''R1''" project_path0 ?w, THEN conjunct1]
    by (simp add: ep grant_def)
  then obtain t w' where ok: "refreshAccessToken creds0 ''R1'' project_path0 ?w = (Inr t, w')"
    by blast
  have first: "access_token t = ''T2'' \<and> refresh_token t = ''R2'' \<and> loadToken w' = Inr t"
    using refreshAccessToken_outcome [of creds0 "''R1''" project_path0 ?w] ok found_project0
    by (simp add: ep grant_def)
  have epd: "token_endpoint world_denied (refresh_request creds0 ''R1'') = denied"
    by (simp add: world_denied_def)
  obtain r w'' where r: "refreshAccessToken creds0 ''R1'' project_path0 world_denied = (r, w'')"
    by (cases "refreshAccessToken creds0 ''R1'' project_path0 world_denied")
  have "\<not> (\<exists>t w'. refreshAccessToken creds0 ''R1'' project_path0 world_denied = (Inr t, w'))"
    using refreshAccessToken_outcome [of creds0 "''R1''" project_path0 world_denied, THEN conjunct1]
    by (simp add: epd denied_def)
  then obtain e where e: "r = Inl e"
    using r by (cases r) auto
  have second: "e = Error ''Token refresh failed: invalid_grant'' \<and> token_files w'' = token_files world_denied"
    using refreshAccessToken_outcome [of creds0 "''R1''" project_path0 world_denied] r e
    by (simp add: epd denied_def)
  show ?thesis
    using ok first r e second found_project0 by auto
qed

text \<open>
  When the refresh fails, no token is returned: with a stored record that expired long
  ago and a token endpoint that answers \<^verbatim>\<open>invalid_grant\<close>, the refresh error comes out
  of \<open>getValidAccessToken\<close>.
\<close>

theorem refresh_failure_returns_no_token:
  "loadCredentials world_denied = Inr creds0
   \<and> loadToken world_denied = Inr (token_at 0)
   \<and> expires_at (token_at 0) < now world_denied + 5 * 60 * 1000
   \<and> fst (getValidAccessToken world_denied) = Inl (Error ''Token refresh failed: invalid_grant'')"
  by code_simp

section \<open>Properties of the authorization flow\<close>

lemma ensureGitignore_keeps:
  "entropy (ensureGitignore w) = entropy w"
  "entropy_pos (ensureGitignore w) = entropy_pos w"
  "sha256 (ensureGitignore w) = sha256 w"
  "callbacks (ensureGitignore w) = callbacks w"
  "token_files (ensureGitignore w) = token_files w"
  "token_endpoint (ensureGitignore w) = token_endpoint w"
  "http_log (ensureGitignore w) = http_log w"
  "served (ensureGitignore w) = served w"
  "browser_log (ensureGitignore w) = browser_log w"
  "now (ensureGitignore w) = now w"
  by (simp_all add: ensureGitignore_def split: option.splits)

lemma generate_session_world:
  "snd (generate_session w) = w\<lparr>entropy_pos := entropy_pos w + 48\<rparr>"
  by (simp add: generate_session_def generateCodeVerifier_def generateState_def
      randomBytes_def Let_def)

lemma generate_session_draws:
  "fst (generate_session w) =
     \<lparr>code_verifier = base64url (map (entropy w) [entropy_pos w ..< entropy_pos w + 32]),
      code_challenge = base64url (sha256 w (utf8 (base64url
                         (map (entropy w) [entropy_pos w ..< entropy_pos w + 32])))),
      pkce_state = hex (map (entropy w) [entropy_pos w + 32 ..< entropy_pos w + 48])\<rparr>"
  by (simp add: generate_session_def generateCodeVerifier_def generateState_def
      generateCodeChallenge_def randomBytes_def Let_def add.assoc)

lemma await_code_fst:
  "fst (await_code c s w) = fst (awaitCallback (pkce_state s) (callbacks w))"
  by (simp add: await_code_def Let_def split: prod.splits)

lemma await_code_snd:
  "token_files (snd (await_code c s w)) = token_files w"
  "token_endpoint (snd (await_code c s w)) = token_endpoint w"
  "http_log (snd (await_code c s w)) = http_log w"
  "now (snd (await_code c s w)) = now w"
  "listening (snd (await_code c s w)) = is_open (snd (awaitCallback (pkce_state s) (callbacks w)))"
  "served (snd (await_code c s w)) =
     served w @ written (snd (awaitCallback (pkce_state s) (callbacks w)))"
  "browser_log (snd (await_code c s w)) =
     browser_log w @ [authUrl c (pkce_state s) (code_challenge s)]"
  by (simp_all add: await_code_def Let_def split: prod.splits)

text \<open>The world in which the listener of \<open>performAuth\<close> runs, and the one it leaves.\<close>

lemma performAuth_unfold:
  assumes "loadCredentials w = Inr c"
  shows "performAuth g w =
     (case fst (await_code c (fst (generate_session w))
                  ((if g then w else ensureGitignore w)\<lparr>entropy_pos := entropy_pos w + 48\<rparr>)) of
        Reject e \<Rightarrow> (Inl e, snd (await_code c (fst (generate_session w))
                  ((if g then w else ensureGitignore w)\<lparr>entropy_pos := entropy_pos w + 48\<rparr>)))
      | Uncaught e \<Rightarrow> (Inl e, snd (await_code c (fst (generate_session w))
                  ((if g then w else ensureGitignore w)\<lparr>entropy_pos := entropy_pos w + 48\<rparr>)))
      | Resolve authCode \<Rightarrow>
          exchange_code c authCode (code_verifier (fst (generate_session w))) g
            (snd (await_code c (fst (generate_session w))
                  ((if g then w else ensureGitignore w)\<lparr>entropy_pos := entropy_pos w + 48\<rparr>))))"
proof -
  let ?w1 = "if \<not> g then ensureGitignore w else w"
  have w1: "?w1 = (if g then w else ensureGitignore w)" by simp
  have pos: "entropy_pos ?w1 = entropy_pos w"
    by (simp add: ensureGitignore_keeps)
  have s: "fst (generate_session ?w1) = fst (generate_session w)"
    by (simp add: generate_session_draws ensureGitignore_keeps)
  have w2: "snd (generate_session ?w1) = ?w1\<lparr>entropy_pos := entropy_pos w + 48\<rparr>"
    by (simp only: generate_session_world pos)
  obtain s' w2' where g: "generate_session ?w1 = (s', w2')"
    by (cases "generate_session ?w1")
  have s': "s' = fst (generate_session w)" and w2': "w2' = ?w1\<lparr>entropy_pos := entropy_pos w + 48\<rparr>"
    using s w2 g by simp_all
  show ?thesis
    unfolding performAuth_def using assms g
    by (simp add: Let_def s' w2' w1 split: prod.splits settle.splits)
qed

text \<open>
  Requests that are answered 404 leave the listener open and the promise pending; a
  request whose handler settles and closes ends the wait, and what is sent after it is
  not received.
\<close>

lemma serve_not_found:
  assumes "handle_callback st r = Inr not_found" and "is_open l"
  shows "serve st (r # rs) l =
           serve st rs (l\<lparr>written := written l @ [\<lparr>code = 404, content_type = None, body = []\<rparr>]\<rparr>)"
proof -
  have "l\<lparr>is_open := \<not> closes not_found,
           promise := (case promise l of None \<Rightarrow> settles not_found | Some s \<Rightarrow> Some s),
           written := ws\<rparr> = l\<lparr>written := ws\<rparr>" for ws
    using assms(2) by (cases l) (simp add: not_found_def split: option.splits)
  moreover have "response not_found = \<lparr>code = 404, content_type = None, body = []\<rparr>"
    by (simp add: not_found_def)
  ultimately show ?thesis
    using assms by simp
qed

lemma serve_skip:
  "\<forall>r\<in>set pre. handle_callback st r = Inr not_found \<Longrightarrow> is_open l \<Longrightarrow>
   serve st (pre @ rs) l =
     serve st rs (l\<lparr>written := written l @ map (\<lambda>_. \<lparr>code = 404, content_type = None, body = []\<rparr>) pre\<rparr>)"
proof (induction pre arbitrary: l)
  case Nil
  then show ?case by simp
next
  case (Cons r pre)
  have "serve st ((r # pre) @ rs) l =
          serve st (pre @ rs) (l\<lparr>written := written l @ [\<lparr>code = 404, content_type = None, body = []\<rparr>]\<rparr>)"
    using Cons.prems serve_not_found [of st r l "pre @ rs"] by simp
  also have "\<dots> = serve st rs (l\<lparr>written := written l @ [\<lparr>code = 404, content_type = None, body = []\<rparr>] @
                       map (\<lambda>_. \<lparr>code = 404, content_type = None, body = []\<rparr>) pre\<rparr>)"
    using Cons.IH [of "l\<lparr>written := written l @ [\<lparr>code = 404, content_type = None, body = []\<rparr>]\<rparr>"]
      Cons.prems by simp
  finally show ?case by simp
qed

lemma serve_closed: "\<not> is_open l \<Longrightarrow> serve st rs l = l"
  by (cases rs) simp_all

lemma serve_settle:
  assumes "handle_callback st r = Inr h" and "closes h" and "is_open l"
  shows "serve st (r # rest) l =
           l\<lparr>is_open := False,
             promise := (case promise l of None \<Rightarrow> settles h | Some s \<Rightarrow> Some s),
             written := written l @ [response h]\<rparr>"
  using assms by (simp add: serve_closed)

lemma awaitCallback_at:
  assumes "\<forall>r\<in>set pre. handle_callback st r = Inr not_found"
      and "handle_callback st r = Inr h" and "closes h" and "settles h = Some s"
  shows "awaitCallback st (pre @ r # rest) =
           (s, \<lparr>is_open = False, promise = Some s,
                written = map (\<lambda>_. \<lparr>code = 404, content_type = None, body = []\<rparr>) pre @ [response h],
                uncaught = None\<rparr>)"
  unfolding awaitCallback_def
  using serve_skip [OF assms(1), of "\<lparr>is_open = True, promise = None, written = [], uncaught = None\<rparr>"
          "r # rest"]
        serve_settle [OF assms(2,3), of _ rest]
  by (simp add: assms(4))

lemma performAuth_rejected:
  assumes "loadCredentials w = Inr c"
      and "fst (awaitCallback (pkce_state (fst (generate_session w))) (callbacks w)) = Reject e"
  shows "fst (performAuth g w) = Inl e"
    and "http_log (snd (performAuth g w)) = http_log w"
    and "token_files (snd (performAuth g w)) = token_files w"
    and "listening (snd (performAuth g w)) =
           is_open (snd (awaitCallback (pkce_state (fst (generate_session w))) (callbacks w)))"
    and "served (snd (performAuth g w)) =
           served w @ written (snd (awaitCallback (pkce_state (fst (generate_session w))) (callbacks w)))"
  using assms(2)
  by (simp_all add: performAuth_unfold [OF assms(1)] await_code_fst await_code_snd
      ensureGitignore_keeps)

lemma exchange_code_fst:
  "fst (exchange_code c authCode v g w) =
     (if truthy (resp_error (token_endpoint w (exchange_request c authCode v)))
      then Inl (Error (''Token exchange failed: '' @
             or_str (resp_error_description (token_endpoint w (exchange_request c authCode v)))
                    (the (resp_error (token_endpoint w (exchange_request c authCode v))))))
      else if \<not> truthy (resp_refresh_token (token_endpoint w (exchange_request c authCode v)))
      then Inl (Error no_refresh_token_message)
      else Inr ())"
  by (simp add: exchange_code_def token_post_def Let_def)

lemma exchange_code_log:
  "http_log (snd (exchange_code c authCode v g w)) =
     http_log w @ [TokenPost (exchange_request c authCode v)]"
  by (simp add: exchange_code_def token_post_def saveToken_def Let_def)

lemma exchange_code_files:
  "fst (exchange_code c authCode v g w) \<noteq> Inr () \<Longrightarrow>
   token_files (snd (exchange_code c authCode v g w)) = token_files w"
  by (simp add: exchange_code_def token_post_def Let_def split: if_splits)

lemma performAuth_resolved:
  assumes "loadCredentials w = Inr c"
      and "fst (awaitCallback (pkce_state (fst (generate_session w))) (callbacks w)) = Resolve authCode"
  shows "fst (performAuth g w) =
     (if truthy (resp_error (token_endpoint w
            (exchange_request c authCode (code_verifier (fst (generate_session w))))))
      then Inl (Error (''Token exchange failed: '' @
             or_str (resp_error_description (token_endpoint w
                       (exchange_request c authCode (code_verifier (fst (generate_session w))))))
                    (the (resp_error (token_endpoint w
                       (exchange_request c authCode (code_verifier (fst (generate_session w)))))))))
      else if \<not> truthy (resp_refresh_token (token_endpoint w
                  (exchange_request c authCode (code_verifier (fst (generate_session w))))))
      then Inl (Error no_refresh_token_message)
      else Inr ())"
    and "http_log (snd (performAuth g w)) =
           http_log w @ [TokenPost (exchange_request c authCode
                                      (code_verifier (fst (generate_session w))))]"
    and "fst (performAuth g w) \<noteq> Inr () \<Longrightarrow> token_files (snd (performAuth g w)) = token_files w"
proof -
  let ?w3 = "snd (await_code c (fst (generate_session w))
                  ((if g then w else ensureGitignore w)\<lparr>entropy_pos := entropy_pos w + 48\<rparr>))"
  let ?v = "code_verifier (fst (generate_session w))"
  have pa: "performAuth g w = exchange_code c authCode ?v g ?w3"
    using assms(2)
    by (simp add: performAuth_unfold [OF assms(1)] await_code_fst ensureGitignore_keeps)
  have ep: "token_endpoint ?w3 = token_endpoint w" and lg: "http_log ?w3 = http_log w"
    and fs: "token_files ?w3 = token_files w"
    by (simp_all add: await_code_snd ensureGitignore_keeps)
  show "fst (performAuth g w) =
     (if truthy (resp_error (token_endpoint w (exchange_request c authCode ?v)))
      then Inl (Error (''Token exchange failed: '' @
             or_str (resp_error_description (token_endpoint w (exchange_request c authCode ?v)))
                    (the (resp_error (token_endpoint w (exchange_request c authCode ?v))))))
      else if \<not> truthy (resp_refresh_token (token_endpoint w (exchange_request c authCode ?v)))
      then Inl (Error no_refresh_token_message)
      else Inr ())"
    unfolding pa exchange_code_fst ep ..
  show "http_log (snd (performAuth g w)) = http_log w @ [TokenPost (exchange_request c authCode ?v)]"
    unfolding pa exchange_code_log lg ..
  show "token_files (snd (performAuth g w)) = token_files w" if "fst (performAuth g w) \<noteq> Inr ()"
    using that exchange_code_files [of c authCode ?v g ?w3] unfolding pa fs by simp
qed

lemma handle_callback_error:
  "truthy (map_of q ''error'') \<Longrightarrow>
   handle_callback st (URL q) =
     Inr \<lparr>response = \<lparr>code = 400, content_type = Some ''text/html'',
                   body = ''<h1>Error: '' @ the (map_of q ''error'') @ ''</h1><p>'' @
                          or_str (map_of q ''error_description'') [] @
                          ''</p><p>You can close this window.</p>''\<rparr>,
      closes = True,
      settles = Some (Reject (Error (the (map_of q ''error'') @ '': '' @
                                     or_str (map_of q ''error_description'') [])))\<rparr>"
  by (simp add: handle_callback_def Let_def)

lemma handle_callback_mismatch:
  "\<not> truthy (map_of q ''error'') \<Longrightarrow> map_of q ''state'' \<noteq> Some st \<Longrightarrow>
   handle_callback st (URL q) =
     Inr \<lparr>response = \<lparr>code = 400, content_type = Some ''text/html'',
                   body = ''<h1>Error: State mismatch</h1><p>Possible CSRF attack. You can close this window.</p>''\<rparr>,
      closes = True,
      settles = Some (Reject (Error ''State mismatch - possible CSRF attack''))\<rparr>"
  by (simp add: handle_callback_def Let_def)

lemma handle_callback_code:
  "\<not> truthy (map_of q ''error'') \<Longrightarrow> map_of q ''state'' = Some st \<Longrightarrow>
   truthy (map_of q ''code'') \<Longrightarrow>
   handle_callback st (URL q) =
     Inr \<lparr>response = \<lparr>code = 200, content_type = Some ''text/html'', body = success_page\<rparr>,
      closes = True,
      settles = Some (Resolve (the (map_of q ''code'')))\<rparr>"
  by (simp add: handle_callback_def Let_def)

lemma handle_callback_other:
  "\<not> truthy (map_of q ''error'') \<Longrightarrow> map_of q ''state'' = Some st \<Longrightarrow>
   \<not> truthy (map_of q ''code'') \<Longrightarrow>
   handle_callback st (URL q) = Inr not_found"
  by (simp add: handle_callback_def Let_def not_found_def)

lemma not_found_iff:
  "handle_callback st (URL q) = Inr not_found \<longleftrightarrow>
     \<not> truthy (map_of q ''error'') \<and> map_of q ''state'' = Some st \<and> \<not> truthy (map_of q ''code'')"
  by (simp add: handle_callback_def Let_def not_found_def)

lemma handle_callback_invalid:
  "handle_callback st InvalidURL = Inl (TypeError ''Invalid URL'')"
  by (simp add: handle_callback_def)

text \<open>
  Claim C2, as the code has it. Take a callback request that reaches the listener while
  it is still listening (every earlier request was answered 404), whose target parses as
  a URL, and whose \<^verbatim>\<open>state\<close> parameter differs from the state generated for this attempt
  (or is missing). If it carries no truthy \<^verbatim>\<open>error\<close> parameter, \<open>performAuth\<close> fails
  with the CSRF-mismatch error; if it does, the \<^verbatim>\<open>error\<close> check comes first and the flow
  fails with that error instead. Either way the code in the request is never used: no
  request is posted to the token endpoint, no token file changes, and the handler has
  closed the server.
\<close>

theorem performAuth_state_mismatch:
  assumes "loadCredentials w = Inr c"
      and "callbacks w = pre @ URL q # rest"
      and "\<forall>r\<in>set pre. handle_callback (pkce_state (fst (generate_session w))) r = Inr not_found"
      and "map_of q ''state'' \<noteq> Some (pkce_state (fst (generate_session w)))"
  shows "(\<not> truthy (map_of q ''error'') \<longrightarrow>
            fst (performAuth g w) = Inl (Error ''State mismatch - possible CSRF attack''))
       \<and> (truthy (map_of q ''error'') \<longrightarrow>
            fst (performAuth g w) = Inl (Error (the (map_of q ''error'') @ '': '' @
                                               or_str (map_of q ''error_description'') [])))
       \<and> http_log (snd (performAuth g w)) = http_log w
       \<and> token_files (snd (performAuth g w)) = token_files w
       \<and> listening (snd (performAuth g w)) = False"
proof -
  let ?st = "pkce_state (fst (generate_session w))"
  let ?e = "if truthy (map_of q ''error'')
            then Error (the (map_of q ''error'') @ '': '' @ or_str (map_of q ''error_description'') [])
            else Error ''State mismatch - possible CSRF attack''"
  obtain h where h: "handle_callback ?st (URL q) = Inr h" "closes h" "settles h = Some (Reject ?e)"
    using assms(4) handle_callback_error [of q ?st] handle_callback_mismatch [of q ?st]
    by (cases "truthy (map_of q ''error'')") simp_all
  note aw = awaitCallback_at [OF assms(3) h, of rest]
  have "fst (awaitCallback ?st (callbacks w)) = Reject ?e"
    by (simp add: assms(2) aw)
  from performAuth_rejected [OF assms(1) this, of g] show ?thesis
    by (simp add: assms(2) aw)
qed

text \<open>
  Claim C4, as the code has it. For every callback request that reaches the listener
  while it is still listening, whose target parses as a URL, and that has a truthy
  (present and non-empty) \<^verbatim>\<open>error\<close> parameter, \<open>performAuth\<close> fails with the error
  \<^verbatim>\<open>error: error_description\<close> (the description empty when absent); the handler answers
  400 and closes the server, so the listener no longer listens and that response is the
  last one written; and nothing is posted to the token endpoint.
\<close>

theorem performAuth_oauth_denied:
  assumes "loadCredentials w = Inr c"
      and "callbacks w = pre @ URL q # rest"
      and "\<forall>r\<in>set pre. handle_callback (pkce_state (fst (generate_session w))) r = Inr not_found"
      and "truthy (map_of q ''error'')"
  shows "fst (performAuth g w) = Inl (Error (the (map_of q ''error'') @ '': '' @
                                            or_str (map_of q ''error_description'') []))
       \<and> closes (projr (handle_callback (pkce_state (fst (generate_session w))) (URL q)))
       \<and> listening (snd (performAuth g w)) = False
       \<and> http_log (snd (performAuth g w)) = http_log w
       \<and> token_files (snd (performAuth g w)) = token_files w
       \<and> served (snd (performAuth g w)) =
           served w @ map (\<lambda>_. \<lparr>code = 404, content_type = None, body = []\<rparr>) pre @
           [\<lparr>code = 400, content_type = Some ''text/html'',
             body = ''<h1>Error: '' @ the (map_of q ''error'') @ ''</h1><p>'' @
                    or_str (map_of q ''error_description'') [] @
                    ''</p><p>You can close this window.</p>''\<rparr>]"
proof -
  let ?st = "pkce_state (fst (generate_session w))"
  let ?e = "Error (the (map_of q ''error'') @ '': '' @ or_str (map_of q ''error_description'') [])"
  note hc = handle_callback_error [OF assms(4), of ?st]
  define h where "h = projr (handle_callback ?st (URL q))"
  have h: "handle_callback ?st (URL q) = Inr h" "closes h" "settles h = Some (Reject ?e)"
    and r: "response h = \<lparr>code = 400, content_type = Some ''text/html'',
             body = ''<h1>Error: '' @ the (map_of q ''error'') @ ''</h1><p>'' @
                    or_str (map_of q ''error_description'') [] @
                    ''</p><p>You can close this window.</p>''\<rparr>"
    unfolding h_def hc by simp_all
  note aw = awaitCallback_at [OF assms(3) h, of rest]
  have "fst (awaitCallback ?st (callbacks w)) = Reject ?e"
    by (simp add: assms(2) aw)
  from performAuth_rejected [OF assms(1) this, of g] show ?thesis
    using h(2) r by (simp add: assms(2) aw h_def)
qed

text \<open>
  Claim C8, as the code has it. Of the requests whose target parses as a URL, the
  handler ignores exactly those with no truthy \<^verbatim>\<open>error\<close>, a \<^verbatim>\<open>state\<close> equal to the
  expected one, and no truthy \<^verbatim>\<open>code\<close>: it answers 404 with an empty body, does not
  close the server and does not settle the promise, and the listener goes on with the
  requests that follow. A request with no truthy \<^verbatim>\<open>error\<close> and without the expected
  \<^verbatim>\<open>state\<close> is not ignored: it is answered 400, the server is closed, and the flow is
  rejected with the CSRF-mismatch error.
\<close>

theorem handle_callback_keeps_listening:
  "(handle_callback state (URL q) = Inr not_found \<longleftrightarrow>
      \<not> truthy (map_of q ''error'') \<and> map_of q ''state'' = Some state \<and> \<not> truthy (map_of q ''code''))
   \<and> (\<not> truthy (map_of q ''error'') \<and> map_of q ''state'' = Some state \<and> \<not> truthy (map_of q ''code'') \<longrightarrow>
        handle_callback state (URL q) =
          Inr \<lparr>response = \<lparr>code = 404, content_type = None, body = []\<rparr>, closes = False, settles = None\<rparr>
        \<and> (\<forall>l::listener. is_open l \<longrightarrow>
              serve state (URL q # rs) l =
                serve state rs (l\<lparr>written := written l @ [\<lparr>code = 404, content_type = None, body = []\<rparr>]\<rparr>)))
   \<and> (\<not> truthy (map_of q ''error'') \<and> map_of q ''state'' \<noteq> Some state \<longrightarrow>
        awaitCallback state (URL q # rs) =
          (Reject (Error ''State mismatch - possible CSRF attack''),
           \<lparr>is_open = False, promise = Some (Reject (Error ''State mismatch - possible CSRF attack'')),
            written = [\<lparr>code = 400, content_type = Some ''text/html'',
                        body = ''<h1>Error: State mismatch</h1><p>Possible CSRF attack. You can close this window.</p>''\<rparr>],
            uncaught = None\<rparr>))"
proof (intro conjI impI allI)
  show "handle_callback state (URL q) = Inr not_found \<longleftrightarrow>
      \<not> truthy (map_of q ''error'') \<and> map_of q ''state'' = Some state \<and> \<not> truthy (map_of q ''code'')"
    by (rule not_found_iff)
next
  assume c: "\<not> truthy (map_of q ''error'') \<and> map_of q ''state'' = Some state \<and> \<not> truthy (map_of q ''code'')"
  then have nf: "handle_callback state (URL q) = Inr not_found"
    by (simp add: not_found_iff)
  then show "handle_callback state (URL q) =
          Inr \<lparr>response = \<lparr>code = 404, content_type = None, body = []\<rparr>, closes = False, settles = None\<rparr>"
    by (simp add: not_found_def)
  fix l :: listener assume "is_open l"
  then show "serve state (URL q # rs) l =
                serve state rs (l\<lparr>written := written l @ [\<lparr>code = 404, content_type = None, body = []\<rparr>]\<rparr>)"
    using nf by (rule serve_not_found [rotated])
next
  assume c: "\<not> truthy (map_of q ''error'') \<and> map_of q ''state'' \<noteq> Some state"
  then have h: "handle_callback state (URL q) =
     Inr \<lparr>response = \<lparr>code = 400, content_type = Some ''text/html'',
                   body = ''<h1>Error: State mismatch</h1><p>Possible CSRF attack. You can close this window.</p>''\<rparr>,
      closes = True,
      settles = Some (Reject (Error ''State mismatch - possible CSRF attack''))\<rparr>"
    by (simp add: handle_callback_mismatch)
  have "\<forall>r\<in>set []. handle_callback state r = Inr not_found"
    by simp
  from awaitCallback_at [OF this h, of "Reject (Error ''State mismatch - possible CSRF attack'')" rs]
  show "awaitCallback state (URL q # rs) =
          (Reject (Error ''State mismatch - possible CSRF attack''),
           \<lparr>is_open = False, promise = Some (Reject (Error ''State mismatch - possible CSRF attack'')),
            written = [\<lparr>code = 400, content_type = Some ''text/html'',
                        body = ''<h1>Error: State mismatch</h1><p>Possible CSRF attack. You can close this window.</p>''\<rparr>],
            uncaught = None\<rparr>)"
    by simp
qed

text \<open>
  Claim C5, as the code has it. When the callback delivers a code and the response of
  the token exchange has no truthy \<^verbatim>\<open>error\<close> and no truthy \<^verbatim>\<open>refresh_token\<close>,
  \<open>performAuth\<close> fails with the missing-refresh-token error, whose message tells the
  user to remove the app's access under connected apps and run auth again, and no token
  file is written.
\<close>

theorem performAuth_missing_refresh_token:
  assumes "loadCredentials w = Inr c"
      and "fst (awaitCallback (pkce_state (fst (generate_session w))) (callbacks w)) = Resolve authCode"
      and "\<not> truthy (resp_error (token_endpoint w
              (exchange_request c authCode (code_verifier (fst (generate_session w))))))"
      and "\<not> truthy (resp_refresh_token (token_endpoint w
              (exchange_request c authCode (code_verifier (fst (generate_session w))))))"
  shows "fst (performAuth g w) = Inl (Error no_refresh_token_message)
       \<and> token_files (snd (performAuth g w)) = token_files w
       \<and> str_includes no_refresh_token_message
            (''Fix: Go to https://twitter.com/settings/connected_apps'' @ nl @
             ''     Remove access for this app, then run auth again.'')"
proof -
  have r: "fst (performAuth g w) = Inl (Error no_refresh_token_message)"
    using performAuth_resolved(1) [OF assms(1,2), of g] assms(3,4) by simp
  then have "fst (performAuth g w) \<noteq> Inr ()"
    by simp
  then have f: "token_files (snd (performAuth g w)) = token_files w"
    by (rule performAuth_resolved(3) [OF assms(1,2)])
  have "str_includes no_refresh_token_message
            (''Fix: Go to https://twitter.com/settings/connected_apps'' @ nl @
             ''     Remove access for this app, then run auth again.'')"
    by code_simp
  with r f show ?thesis by simp
qed

text \<open>
  A request whose target does not parse ends the process while the promise is pending:
  the flow is neither resolved nor rejected.
\<close>

lemma unparsable_target_ends_process:
  "awaitCallback st (InvalidURL # rs) =
     (Uncaught (TypeError ''Invalid URL''),
      \<lparr>is_open = True, promise = None, written = [], uncaught = Some (TypeError ''Invalid URL'')\<rparr>)"
  by (simp add: awaitCallback_def handle_callback_def)

lemma session0:
  "fst (generate_session world0) =
     \<lparr>code_verifier = ''AAECAwQFBgcICQoLDA0ODxAREhMUFRYXGBkaGxwdHh8'',
      code_challenge = ''QUFFQ0F3UUZCZ2NJQ1FvTERBME9EeEFSRWhNVUZSWVg'',
      pkce_state = ''202122232425262728292a2b2c2d2e2f''\<rparr>"
  by code_simp

lemma world_flow_fields:
  "loadCredentials (world_flow qs r) = Inr creds0"
  "callbacks (world_flow qs r) = qs"
  "token_endpoint (world_flow qs r) = (\<lambda>_. r)"
  "http_log (world_flow qs r) = []"
  "served (world_flow qs r) = []"
  "token_files (world_flow qs r) = Map.empty"
  by (simp_all add: world_flow_def world0_def loadCredentials_def credentials_from_file_def
      creds0_def)

lemma world_flow_session:
  "pkce_state (fst (generate_session (world_flow qs r))) = state0"
  "code_verifier (fst (generate_session (world_flow qs r))) = verifier0"
proof -
  have "fst (generate_session (world_flow qs r)) = fst (generate_session world0)"
    by (simp add: generate_session_draws world_flow_def)
  then show "pkce_state (fst (generate_session (world_flow qs r))) = state0"
    and "code_verifier (fst (generate_session (world_flow qs r))) = verifier0"
    by (simp_all add: session0 state0_def verifier0_def)
qed

lemma flow_rejected0:
  assumes "fst (awaitCallback state0 qs) = Reject e"
  shows "fst (performAuth g (world_flow qs r)) = Inl e"
    and "http_log (snd (performAuth g (world_flow qs r))) = []"
    and "served (snd (performAuth g (world_flow qs r))) = written (snd (awaitCallback state0 qs))"
  using performAuth_rejected [OF world_flow_fields(1), of qs r e g] assms
  by (simp_all add: world_flow_session world_flow_fields)

lemma flow_resolved0:
  assumes "fst (awaitCallback state0 qs) = Resolve authCode"
  shows "fst (performAuth g (world_flow qs r)) =
           (if truthy (resp_error r)
            then Inl (Error (''Token exchange failed: '' @
                             or_str (resp_error_description r) (the (resp_error r))))
            else if \<not> truthy (resp_refresh_token r) then Inl (Error no_refresh_token_message)
            else Inr ())"
    and "http_log (snd (performAuth g (world_flow qs r))) =
           [TokenPost (exchange_request creds0 authCode verifier0)]"
  using performAuth_resolved(1,2) [OF world_flow_fields(1), of qs r authCode g] assms
  by (simp_all add: world_flow_session world_flow_fields)

theorem performAuth_state_mismatch_witness:
  "loadCredentials (world_flow [URL [(''state'', state0)], URL [(''state'', ''evil''), (''code'', ''AUTHCODE1'')]]
                     (grant ''T1'' ''R1'')) = Inr creds0
   \<and> handle_callback state0 (URL [(''state'', state0)]) = Inr not_found
   \<and> map_of [(''state'', ''evil''), (''code'', ''AUTHCODE1'')] ''state'' \<noteq> Some state0
   \<and> fst (performAuth False
        (world_flow [URL [(''state'', state0)], URL [(''state'', ''evil''), (''code'', ''AUTHCODE1'')]]
           (grant ''T1'' ''R1''))) = Inl (Error ''State mismatch - possible CSRF attack'')
   \<and> http_log (snd (performAuth False
        (world_flow [URL [(''state'', state0)], URL [(''state'', ''evil''), (''code'', ''AUTHCODE1'')]]
           (grant ''T1'' ''R1'')))) = []
   \<and> listening (snd (performAuth False
        (world_flow [URL [(''state'', state0)], URL [(''state'', ''evil''), (''code'', ''AUTHCODE1'')]]
           (grant ''T1'' ''R1'')))) = False"
proof -
  let ?w = "world_flow [URL [(''state'', state0)], URL [(''state'', ''evil''), (''code'', ''AUTHCODE1'')]]
              (grant ''T1'' ''R1'')"
  have pre: "\<forall>r\<in>set [URL [(''state'', state0)]].
               handle_callback (pkce_state (fst (generate_session ?w))) r = Inr not_found"
    by (simp add: world_flow_session not_found_iff)
  have q: "map_of [(''state'', ''evil''), (''code'', ''AUTHCODE1'')] ''state''
             \<noteq> Some (pkce_state (fst (generate_session ?w)))"
    by (simp add: world_flow_session state0_def)
  have cb: "callbacks ?w = [URL [(''state'', state0)]] @ URL [(''state'', ''evil''), (''code'', ''AUTHCODE1'')] # []"
    by (simp add: world_flow_fields)
  show ?thesis
    using performAuth_state_mismatch [OF world_flow_fields(1) cb pre q, of False] pre q
    by (simp add: world_flow_fields world_flow_session)
qed

text \<open>
  A request with a mismatching state that also carries an \<^verbatim>\<open>error\<close> parameter does not
  fail with the CSRF-mismatch error.
\<close>

theorem state_mismatch_with_error_is_not_csrf:
  "map_of [(''error'', ''access_denied''), (''state'', ''evil''), (''code'', ''AUTHCODE1'')] ''state''
     \<noteq> Some (pkce_state (fst (generate_session
          (world_flow [URL [(''error'', ''access_denied''), (''state'', ''evil''), (''code'', ''AUTHCODE1'')]]
             (grant ''T1'' ''R1'')))))
   \<and> fst (performAuth False
        (world_flow [URL [(''error'', ''access_denied''), (''state'', ''evil''), (''code'', ''AUTHCODE1'')]]
           (grant ''T1'' ''R1''))) = Inl (Error ''access_denied: '')
   \<and> fst (performAuth False
        (world_flow [URL [(''error'', ''access_denied''), (''state'', ''evil''), (''code'', ''AUTHCODE1'')]]
           (grant ''T1'' ''R1''))) \<noteq> Inl (Error ''State mismatch - possible CSRF attack'')"
proof -
  have "fst (awaitCallback state0
          [URL [(''error'', ''access_denied''), (''state'', ''evil''), (''code'', ''AUTHCODE1'')]])
        = Reject (Error ''access_denied: '')"
    by (simp add: awaitCallback_def handle_callback_def)
  from flow_rejected0(1) [OF this] show ?thesis
    by (simp add: world_flow_session state0_def)
qed

theorem performAuth_oauth_denied_witness:
  "loadCredentials (world_flow [URL [(''error'', ''access_denied''), (''error_description'', ''User denied'')]]
                     (grant ''T1'' ''R1'')) = Inr creds0
   \<and> truthy (map_of [(''error'', ''access_denied''), (''error_description'', ''User denied'')] ''error'')
   \<and> fst (performAuth False
        (world_flow [URL [(''error'', ''access_denied''), (''error_description'', ''User denied'')]]
           (grant ''T1'' ''R1''))) = Inl (Error ''access_denied: User denied'')
   \<and> listening (snd (performAuth False
        (world_flow [URL [(''error'', ''access_denied''), (''error_description'', ''User denied'')]]
           (grant ''T1'' ''R1'')))) = False
   \<and> http_log (snd (performAuth False
        (world_flow [URL [(''error'', ''access_denied''), (''error_description'', ''User denied'')]]
           (grant ''T1'' ''R1'')))) = []"
proof -
  let ?q = "[(''error'', ''access_denied''), (''error_description'', ''User denied'')]"
  let ?w = "world_flow [URL ?q] (grant ''T1'' ''R1'')"
  have pre: "\<forall>r\<in>set []. handle_callback (pkce_state (fst (generate_session ?w))) r = Inr not_found"
    by simp
  have cb: "callbacks ?w = [] @ URL ?q # []"
    by (simp add: world_flow_fields)
  have e: "truthy (map_of ?q ''error'')"
    by simp
  show ?thesis
    using performAuth_oauth_denied [OF world_flow_fields(1) cb pre e, of False]
    by (simp add: world_flow_fields)
qed

text \<open>
  A request that contains an \<^verbatim>\<open>error\<close> parameter with an empty value is not treated
  as an error: with a matching state and a code the flow goes on to the token exchange.
\<close>

theorem empty_error_parameter_is_ignored:
  "map_of [(''error'', []), (''code'', ''AUTHCODE1''), (''state'', state0)] ''error'' = Some []
   \<and> fst (performAuth False
        (world_flow [URL [(''error'', []), (''code'', ''AUTHCODE1''), (''state'', state0)]]
           (grant ''T1'' ''R1''))) = Inr ()
   \<and> http_log (snd (performAuth False
        (world_flow [URL [(''error'', []), (''code'', ''AUTHCODE1''), (''state'', state0)]]
           (grant ''T1'' ''R1'')))) = [TokenPost (exchange_request creds0 ''AUTHCODE1'' verifier0)]"
proof -
  have "fst (awaitCallback state0 [URL [(''error'', []), (''code'', ''AUTHCODE1''), (''state'', state0)]])
        = Resolve ''AUTHCODE1''"
    by (simp add: awaitCallback_def handle_callback_def)
  from flow_resolved0 [OF this, of False "grant ''T1'' ''R1''"] show ?thesis
    by (simp add: grant_def)
qed

theorem handle_callback_keeps_listening_witness:
  "\<not> truthy (map_of [(''state'', ''s'')] ''error'')
   \<and> map_of [(''state'', ''s'')] ''state'' = Some ''s''
   \<and> \<not> truthy (map_of [(''state'', ''s'')] ''code'')
   \<and> handle_callback ''s'' (URL [(''state'', ''s'')]) =
       Inr \<lparr>response = \<lparr>code = 404, content_type = None, body = []\<rparr>, closes = False, settles = None\<rparr>
   \<and> serve ''s'' [URL [(''state'', ''s'')]]
         \<lparr>is_open = True, promise = None, written = [], uncaught = None\<rparr> =
       \<lparr>is_open = True, promise = None,
        written = [\<lparr>code = 404, content_type = None, body = []\<rparr>], uncaught = None\<rparr>
   \<and> map_of [(''path'', ''favicon'')] ''state'' \<noteq> Some ''s''
   \<and> fst (awaitCallback ''s'' [URL [(''path'', ''favicon'')]])
       = Reject (Error ''State mismatch - possible CSRF attack'')"
proof -
  have c1: "\<not> truthy (map_of [(''state'', ''s'')] ''error'')
            \<and> map_of [(''state'', ''s'')] ''state'' = Some ''s''
            \<and> \<not> truthy (map_of [(''state'', ''s'')] ''code'')"
    by simp
  have c2: "\<not> truthy (map_of [(''path'', ''favicon'')] ''error'')
            \<and> map_of [(''path'', ''favicon'')] ''state'' \<noteq> Some ''s''"
    by simp
  have o: "is_open \<lparr>is_open = True, promise = None, written = [], uncaught = None\<rparr>"
    by simp
  note t1 = handle_callback_keeps_listening [of "''s''" "[(''state'', ''s'')]" "[]",
              THEN conjunct2, THEN conjunct1, THEN mp, OF c1]
  note t2 = handle_callback_keeps_listening [of "''s''" "[(''path'', ''favicon'')]" "[]",
              THEN conjunct2, THEN conjunct2, THEN mp, OF c2]
  have a: "handle_callback ''s'' (URL [(''state'', ''s'')]) =
       Inr \<lparr>response = \<lparr>code = 404, content_type = None, body = []\<rparr>, closes = False, settles = None\<rparr>"
    by (rule t1 [THEN conjunct1])
  have b: "serve ''s'' [URL [(''state'', ''s'')]]
         \<lparr>is_open = True, promise = None, written = [], uncaught = None\<rparr> =
       \<lparr>is_open = True, promise = None,
        written = [\<lparr>code = 404, content_type = None, body = []\<rparr>], uncaught = None\<rparr>"
    using t1 [THEN conjunct2, THEN spec, THEN mp, OF o] by simp
  have c: "fst (awaitCallback ''s'' [URL [(''path'', ''favicon'')]])
       = Reject (Error ''State mismatch - possible CSRF attack'')"
    by (simp add: t2)
  show ?thesis
    using c1 c2 a b c by blast
qed

text \<open>
  A request that carries neither a code, nor an error, nor a state is answered 400 and
  rejects the flow with the CSRF-mismatch error, although the real redirect follows.
\<close>

theorem bare_request_aborts_flow:
  "map_of [] ''code'' = (None :: string option)
   \<and> map_of [] ''error'' = (None :: string option)
   \<and> map_of [] ''state'' = (None :: string option)
   \<and> fst (performAuth False
        (world_flow [URL [], URL [(''code'', ''AUTHCODE1''), (''state'', state0)]] (grant ''T1'' ''R1'')))
       = Inl (Error ''State mismatch - possible CSRF attack'')
   \<and> served (snd (performAuth False
        (world_flow [URL [], URL [(''code'', ''AUTHCODE1''), (''state'', state0)]] (grant ''T1'' ''R1''))))
       = [\<lparr>code = 400, content_type = Some ''text/html'',
           body = ''<h1>Error: State mismatch</h1><p>Possible CSRF attack. You can close this window.</p>''\<rparr>]"
proof -
  have "fst (awaitCallback state0 [URL [], URL [(''code'', ''AUTHCODE1''), (''state'', state0)]])
        = Reject (Error ''State mismatch - possible CSRF attack'')"
    by (simp add: awaitCallback_def handle_callback_def)
  from flow_rejected0(1,3) [OF this, of False "grant ''T1'' ''R1''"] show ?thesis
    by (simp add: awaitCallback_def handle_callback_def)
qed

theorem performAuth_missing_refresh_token_witness:
  "loadCredentials (world_flow [URL [(''code'', ''AUTHCODE1''), (''state'', state0)]]
                     ((grant ''T1'' ''R1'')\<lparr>resp_refresh_token := None\<rparr>)) = Inr creds0
   \<and> fst (awaitCallback state0 [URL [(''code'', ''AUTHCODE1''), (''state'', state0)]]) = Resolve ''AUTHCODE1''
   \<and> \<not> truthy (resp_error ((grant ''T1'' ''R1'')\<lparr>resp_refresh_token := None\<rparr>))
   \<and> \<not> truthy (resp_refresh_token ((grant ''T1'' ''R1'')\<lparr>resp_refresh_token := None\<rparr>))
   \<and> fst (performAuth False
        (world_flow [URL [(''code'', ''AUTHCODE1''), (''state'', state0)]]
           ((grant ''T1'' ''R1'')\<lparr>resp_refresh_token := None\<rparr>))) = Inl (Error no_refresh_token_message)
   \<and> token_files (snd (performAuth False
        (world_flow [URL [(''code'', ''AUTHCODE1''), (''state'', state0)]]
           ((grant ''T1'' ''R1'')\<lparr>resp_refresh_token := None\<rparr>)))) = Map.empty"
proof -
  let ?r = "(grant ''T1'' ''R1'')\<lparr>resp_refresh_token := None\<rparr>"
  let ?w = "world_flow [URL [(''code'', ''AUTHCODE1''), (''state'', state0)]] ?r"
  have a: "fst (awaitCallback state0 [URL [(''code'', ''AUTHCODE1''), (''state'', state0)]]) = Resolve ''AUTHCODE1''"
    by (simp add: awaitCallback_def handle_callback_def)
  then have a': "fst (awaitCallback (pkce_state (fst (generate_session ?w))) (callbacks ?w)) = Resolve ''AUTHCODE1''"
    by (simp add: world_flow_session world_flow_fields)
  have e: "\<not> truthy (resp_error (token_endpoint ?w
              (exchange_request creds0 ''AUTHCODE1'' (code_verifier (fst (generate_session ?w))))))"
    and rt: "\<not> truthy (resp_refresh_token (token_endpoint ?w
              (exchange_request creds0 ''AUTHCODE1'' (code_verifier (fst (generate_session ?w))))))"
    by (simp_all add: world_flow_fields grant_def)
  show ?thesis
    using performAuth_missing_refresh_token [OF world_flow_fields(1) a' e rt, of False] a
    by (simp add: world_flow_fields grant_def)
qed

text \<open>
  An error response of the token endpoint lacks a \<^verbatim>\<open>refresh_token\<close> too, and is
  reported as a failed token exchange, not as a missing refresh token.
\<close>

theorem error_response_without_refresh_token:
  "resp_refresh_token (token_endpoint
       (world_flow [URL [(''code'', ''AUTHCODE1''), (''state'', state0)]] denied)
       (exchange_request creds0 ''AUTHCODE1'' verifier0)) = None
   \<and> fst (performAuth False (world_flow [URL [(''code'', ''AUTHCODE1''), (''state'', state0)]] denied))
       = Inl (Error ''Token exchange failed: invalid_grant'')
   \<and> Error ''Token exchange failed: invalid_grant'' \<noteq> Error no_refresh_token_message"
proof -
  have "fst (awaitCallback state0 [URL [(''code'', ''AUTHCODE1''), (''state'', state0)]]) = Resolve ''AUTHCODE1''"
    by (simp add: awaitCallback_def handle_callback_def)
  from flow_resolved0(1) [OF this, of False denied] show ?thesis
    by (simp add: denied_def world_flow_fields no_refresh_token_message_def)
qed

section \<open>Properties of the encodings\<close>

lemma byte_bound: "unat (b :: 8 word) < 256"
  using unsigned_less [of b, where 'a = nat] by simp

lemma digits_split:
  fixes a b a' b' n :: nat
  assumes "b < n" "b' < n" "a * n + b = a' * n + b'"
  shows "a = a'" and "b = b'"
proof -
  have "(a * n + b) div n = (a' * n + b') div n" "(a * n + b) mod n = (a' * n + b') mod n"
    using assms(3) by simp_all
  then show "a = a'" and "b = b'"
    using assms(1,2) by simp_all
qed

lemma nat_eq_by_div_mod:
  fixes x y n :: nat
  assumes "x div n = y div n" "x mod n = y mod n"
  shows "x = y"
  using assms by (metis div_mult_mod_eq)

lemma div_bound: "(x :: nat) < 256 \<Longrightarrow> x div 16 < 16" "(x :: nat) < 256 \<Longrightarrow> x div 64 < 4"
  "(x :: nat) < 256 \<Longrightarrow> x div 4 < 64"
  by simp_all

lemma sextets_inj3:
  fixes x y z x' y' z' :: nat
  assumes "x < 256" "y < 256" "z < 256" "x' < 256" "y' < 256" "z' < 256"
      and e1: "x div 4 = x' div 4"
      and e2: "(x mod 4) * 16 + y div 16 = (x' mod 4) * 16 + y' div 16"
      and e3: "(y mod 16) * 4 + z div 64 = (y' mod 16) * 4 + z' div 64"
      and e4: "z mod 64 = z' mod 64"
  shows "x = x'" and "y = y'" and "z = z'"
proof -
  have a: "x mod 4 = x' mod 4" "y div 16 = y' div 16"
    using digits_split [OF _ _ e2] assms(2,5) by (simp_all add: div_bound)
  have b: "y mod 16 = y' mod 16" "z div 64 = z' div 64"
    using digits_split [OF _ _ e3] assms(3,6) by (simp_all add: div_bound)
  show "x = x'" using e1 a(1) by (rule nat_eq_by_div_mod)
  show "y = y'" using a(2) b(1) by (rule nat_eq_by_div_mod)
  show "z = z'" using b(2) e4 by (rule nat_eq_by_div_mod)
qed


lemma base64url_alphabet_distinct:
  "distinct base64url_alphabet" "length base64url_alphabet = 64"
  by (simp_all add: base64url_alphabet_def)

lemma base64url_alphabet_inj:
  "i < 64 \<Longrightarrow> j < 64 \<Longrightarrow> base64url_alphabet ! i = base64url_alphabet ! j \<Longrightarrow> i = j"
  using base64url_alphabet_distinct by (simp add: nth_eq_iff_index_eq)

lemma hex_digits_inj:
  "i < 16 \<Longrightarrow> j < 16 \<Longrightarrow> hex_digits ! i = hex_digits ! j \<Longrightarrow> i = j"
proof -
  have "distinct hex_digits" "length hex_digits = 16"
    by (simp_all add: hex_digits_def)
  then show "i < 16 \<Longrightarrow> j < 16 \<Longrightarrow> hex_digits ! i = hex_digits ! j \<Longrightarrow> i = j"
    by (simp add: nth_eq_iff_index_eq)
qed

lemma sextet_bounds:
  fixes a b :: byte
  shows "unat a div 4 < 64" "(unat a mod 4) * 16 + unat b div 16 < 64"
    "(unat a mod 16) * 4 + unat b div 64 < 64" "unat a mod 64 < 64"
    "(unat a mod 4) * 16 < 64" "(unat a mod 16) * 4 < 64"
proof -
  have "unat a mod 4 \<le> 3" "unat a mod 16 \<le> 15" "unat b div 16 \<le> 15" "unat b div 64 \<le> 3"
    using byte_bound [of a] byte_bound [of b] by simp_all
  then show "(unat a mod 4) * 16 + unat b div 16 < 64" "(unat a mod 16) * 4 + unat b div 64 < 64"
    "(unat a mod 4) * 16 < 64" "(unat a mod 16) * 4 < 64"
    by linarith+
  show "unat a div 4 < 64" "unat a mod 64 < 64"
    using byte_bound [of a] by simp_all
qed

lemmas enc_inj1 = base64url_alphabet_inj [OF sextet_bounds(1) sextet_bounds(1)]
lemmas enc_inj2 = base64url_alphabet_inj [OF sextet_bounds(2) sextet_bounds(2)]
lemmas enc_inj3 = base64url_alphabet_inj [OF sextet_bounds(3) sextet_bounds(3)]
lemmas enc_inj4 = base64url_alphabet_inj [OF sextet_bounds(4) sextet_bounds(4)]
lemmas enc_inj5 = base64url_alphabet_inj [OF sextet_bounds(5) sextet_bounds(5)]
lemmas enc_inj6 = base64url_alphabet_inj [OF sextet_bounds(6) sextet_bounds(6)]

lemma triples_induct [case_names Nil One Two Three]:
  assumes "P []" and "\<And>a. P [a]" and "\<And>a b. P [a, b]"
      and "\<And>a b c rest. P rest \<Longrightarrow> P (a # b # c # rest)"
  shows "P xs"
  using assms by (induction_schema) (pat_completeness, lexicographic_order)

lemma unat_byte_eq: "unat (a :: byte) = unat b \<Longrightarrow> a = b"
  by (simp add: word_unat_eq_iff)

lemma base64url_inj:
  "length xs = length ys \<Longrightarrow> base64url xs = base64url ys \<Longrightarrow> xs = ys"
proof (induction xs arbitrary: ys rule: triples_induct)
  case Nil
  then show ?case by simp
next
  case (One a)
  then obtain a' where ys: "ys = [a']"
    by (cases ys) auto
  from One have "base64url_alphabet ! (unat a div 4) = base64url_alphabet ! (unat a' div 4)"
    and "base64url_alphabet ! ((unat a mod 4) * 16) = base64url_alphabet ! ((unat a' mod 4) * 16)"
    by (simp_all add: ys base64url_def)
  then have "unat a div 4 = unat a' div 4" "(unat a mod 4) * 16 = (unat a' mod 4) * 16"
    by (blast dest: enc_inj1 enc_inj5)+
  then have "unat a = unat a'"
    by (auto intro: nat_eq_by_div_mod)
  then show ?case by (simp add: ys unat_byte_eq)
next
  case (Two a b)
  then obtain a' b' where ys: "ys = [a', b']"
    by (cases ys; cases "tl ys") auto
  from Two have "base64url_alphabet ! (unat a div 4) = base64url_alphabet ! (unat a' div 4)"
    and "base64url_alphabet ! ((unat a mod 4) * 16 + unat b div 16)
         = base64url_alphabet ! ((unat a' mod 4) * 16 + unat b' div 16)"
    and "base64url_alphabet ! ((unat b mod 16) * 4) = base64url_alphabet ! ((unat b' mod 16) * 4)"
    by (simp_all add: ys base64url_def)
  then have e: "unat a div 4 = unat a' div 4"
    "(unat a mod 4) * 16 + unat b div 16 = (unat a' mod 4) * 16 + unat b' div 16"
    "(unat b mod 16) * 4 = (unat b' mod 16) * 4"
    by (blast dest: enc_inj1 enc_inj2 enc_inj6)+
  have "unat a mod 4 = unat a' mod 4" "unat b div 16 = unat b' div 16"
    using digits_split [OF _ _ e(2)] byte_bound [of b] byte_bound [of b']
    by (simp_all add: div_bound)
  with e have "unat a = unat a'" "unat b = unat b'"
    by (auto intro: nat_eq_by_div_mod)
  then show ?case by (simp add: ys unat_byte_eq)
next
  case (Three a b c rest)
  then obtain a' b' c' rest' where ys: "ys = a' # b' # c' # rest'"
    by (cases ys; cases "tl ys"; cases "tl (tl ys)") auto
  from Three.prems have len: "length rest = length rest'"
    by (simp add: ys)
  from Three.prems(2) have
    "base64url_alphabet ! (unat a div 4) = base64url_alphabet ! (unat a' div 4)"
    "base64url_alphabet ! ((unat a mod 4) * 16 + unat b div 16)
       = base64url_alphabet ! ((unat a' mod 4) * 16 + unat b' div 16)"
    "base64url_alphabet ! ((unat b mod 16) * 4 + unat c div 64)
       = base64url_alphabet ! ((unat b' mod 16) * 4 + unat c' div 64)"
    "base64url_alphabet ! (unat c mod 64) = base64url_alphabet ! (unat c' mod 64)"
    and tl: "base64url rest = base64url rest'"
    by (simp_all add: ys base64url_def)
  then have "unat a div 4 = unat a' div 4"
    "(unat a mod 4) * 16 + unat b div 16 = (unat a' mod 4) * 16 + unat b' div 16"
    "(unat b mod 16) * 4 + unat c div 64 = (unat b' mod 16) * 4 + unat c' div 64"
    "unat c mod 64 = unat c' mod 64"
    by (blast dest: enc_inj1 enc_inj2 enc_inj3 enc_inj4)+
  then have "unat a = unat a'" "unat b = unat b'" "unat c = unat c'"
    using sextets_inj3 [of "unat a" "unat b" "unat c" "unat a'" "unat b'" "unat c'"]
    by (simp_all add: byte_bound)
  moreover have "rest = rest'"
    using Three.IH [OF len tl] .
  ultimately show ?case by (simp add: ys unat_byte_eq)
qed

lemma hex_byte_inj: "hex_byte a = hex_byte b \<Longrightarrow> a = b"
proof -
  assume "hex_byte a = hex_byte b"
  then have "hex_digits ! (unat a div 16) = hex_digits ! (unat b div 16)"
    "hex_digits ! (unat a mod 16) = hex_digits ! (unat b mod 16)"
    by (simp_all add: hex_byte_def)
  then have "unat a div 16 = unat b div 16" "unat a mod 16 = unat b mod 16"
    using byte_bound [of a] byte_bound [of b]
    by (auto intro!: hex_digits_inj simp: div_bound)
  then have "unat a = unat b" by (rule nat_eq_by_div_mod)
  then show "a = b" by (rule unat_byte_eq)
qed

lemma hex_inj: "hex xs = hex ys \<Longrightarrow> xs = ys"
proof (induction xs arbitrary: ys)
  case Nil
  then show ?case by (cases ys) (simp_all add: hex_def hex_byte_def)
next
  case (Cons a xs)
  then obtain b ys' where ys: "ys = b # ys'"
    by (cases ys) (simp_all add: hex_def hex_byte_def)
  from Cons.prems have "hex_byte a = hex_byte b" "hex xs = hex ys'"
    by (simp_all add: ys hex_def hex_byte_def)
  then show ?case
    using Cons.IH hex_byte_inj by (simp add: ys)
qed

lemma base64url_length: "length (base64url xs) = (4 * length xs + 2) div 3"
  by (induction xs rule: triples_induct) (simp_all add: base64url_def)

lemma base64url_chars: "set (base64url xs) \<subseteq> set base64url_alphabet"
proof (induction xs rule: triples_induct)
  case (Three a b c rest)
  have "base64url_alphabet ! i \<in> set base64url_alphabet" if "i < 64" for i
    using that by (simp add: base64url_alphabet_distinct)
  then show ?case
    using Three byte_bound [of a] byte_bound [of b] byte_bound [of c]
    by (simp add: base64url_def sextet_bounds)
next
  case (Two a b)
  have "base64url_alphabet ! i \<in> set base64url_alphabet" if "i < 64" for i
    using that by (simp add: base64url_alphabet_distinct)
  then show ?case
    using byte_bound [of a] byte_bound [of b]
    by (simp add: base64url_def sextet_bounds)
next
  case (One a)
  have "base64url_alphabet ! i \<in> set base64url_alphabet" if "i < 64" for i
    using that by (simp add: base64url_alphabet_distinct)
  then show ?case
    using byte_bound [of a]
    by (simp add: base64url_def sextet_bounds)
qed (simp add: base64url_def)

section \<open>Properties of the PKCE session\<close>

lemma exchange_code_browser:
  "browser_log (snd (exchange_code c authCode v g w)) = browser_log w"
  by (simp add: exchange_code_def token_post_def saveToken_def Let_def)

lemma performAuth_browser:
  assumes "loadCredentials w = Inr c"
  shows "browser_log (snd (performAuth g w)) =
           browser_log w @ [authUrl c (pkce_state (fst (generate_session w)))
                                      (code_challenge (fst (generate_session w)))]"
  by (simp add: performAuth_unfold [OF assms] await_code_snd exchange_code_browser
      ensureGitignore_keeps split: settle.splits)

lemma second_session_draws:
  "entropy (snd (generate_session w)) = entropy w"
  "entropy_pos (snd (generate_session w)) = entropy_pos w + 48"
  "sha256 (snd (generate_session w)) = sha256 w"
  by (simp_all add: generate_session_world)

text \<open>
  Claim C3. For the PKCE session that \<open>performAuth\<close> generates (the one whose state
  and challenge it puts into the authorization URL): the \<open>code_challenge\<close> is the
  base64url encoding of the SHA-256 digest of the \<open>code_verifier\<close>; the
  \<open>code_verifier\<close> is the base64url encoding of 32 bytes drawn from the entropy source,
  43 characters of the URL-safe alphabet with no \<^verbatim>\<open>=\<close> padding; the state is the
  hexadecimal encoding of the 16 bytes drawn next, none of them shared with the
  verifier's. A second session generated after it draws the following 32 and 16 bytes.
  The encodings are injective, so the two sessions have the same verifier (state) exactly
  when the entropy source returned the same bytes again: with fresh random bytes for
  each draw, two sessions generated in sequence share neither verifier nor state.
\<close>

theorem generate_session_pkce:
  "code_challenge (fst (generate_session w))
     = base64url (sha256 w (utf8 (code_verifier (fst (generate_session w)))))
   \<and> code_verifier (fst (generate_session w))
     = base64url (map (entropy w) [entropy_pos w ..< entropy_pos w + 32])
   \<and> length (code_verifier (fst (generate_session w))) = 43
   \<and> set (code_verifier (fst (generate_session w))) \<subseteq> set base64url_alphabet
   \<and> CHR ''='' \<notin> set (code_verifier (fst (generate_session w)))
   \<and> pkce_state (fst (generate_session w))
     = hex (map (entropy w) [entropy_pos w + 32 ..< entropy_pos w + 48])
   \<and> (code_verifier (fst (generate_session (snd (generate_session w))))
        = code_verifier (fst (generate_session w)) \<longleftrightarrow>
      map (entropy w) [entropy_pos w + 48 ..< entropy_pos w + 80]
        = map (entropy w) [entropy_pos w ..< entropy_pos w + 32])
   \<and> (pkce_state (fst (generate_session (snd (generate_session w))))
        = pkce_state (fst (generate_session w)) \<longleftrightarrow>
      map (entropy w) [entropy_pos w + 80 ..< entropy_pos w + 96]
        = map (entropy w) [entropy_pos w + 32 ..< entropy_pos w + 48])
   \<and> (map (entropy w) [entropy_pos w + 48 ..< entropy_pos w + 80]
        \<noteq> map (entropy w) [entropy_pos w ..< entropy_pos w + 32] \<longrightarrow>
      code_verifier (fst (generate_session (snd (generate_session w))))
        \<noteq> code_verifier (fst (generate_session w)))
   \<and> (map (entropy w) [entropy_pos w + 80 ..< entropy_pos w + 96]
        \<noteq> map (entropy w) [entropy_pos w + 32 ..< entropy_pos w + 48] \<longrightarrow>
      pkce_state (fst (generate_session (snd (generate_session w))))
        \<noteq> pkce_state (fst (generate_session w)))
   \<and> (\<forall>c. loadCredentials w = Inr c \<longrightarrow>
        browser_log (snd (performAuth g w)) =
          browser_log w @ [authUrl c (pkce_state (fst (generate_session w)))
                                     (code_challenge (fst (generate_session w)))])"
proof -
  let ?p = "entropy_pos w"
  let ?s = "fst (generate_session w)"
  let ?s' = "fst (generate_session (snd (generate_session w)))"
  have v: "code_verifier ?s = base64url (map (entropy w) [?p ..< ?p + 32])"
    and ch: "code_challenge ?s = base64url (sha256 w (utf8 (code_verifier ?s)))"
    and st: "pkce_state ?s = hex (map (entropy w) [?p + 32 ..< ?p + 48])"
    by (simp_all add: generate_session_draws)
  have v': "code_verifier ?s' = base64url (map (entropy w) [?p + 48 ..< ?p + 80])"
    and st': "pkce_state ?s' = hex (map (entropy w) [?p + 80 ..< ?p + 96])"
    by (simp_all add: generate_session_draws second_session_draws add.assoc)
  have len: "length (code_verifier ?s) = 43"
    by (simp add: v base64url_length)
  have chars: "set (code_verifier ?s) \<subseteq> set base64url_alphabet"
    by (simp add: v base64url_chars)
  have "CHR ''='' \<notin> set base64url_alphabet"
    by (simp add: base64url_alphabet_def)
  with chars have nopad: "CHR ''='' \<notin> set (code_verifier ?s)"
    by blast
  have veq: "code_verifier ?s' = code_verifier ?s \<longleftrightarrow>
      map (entropy w) [?p + 48 ..< ?p + 80] = map (entropy w) [?p ..< ?p + 32]"
    unfolding v v' using base64url_inj [of "map (entropy w) [?p + 48 ..< ?p + 80]"
        "map (entropy w) [?p ..< ?p + 32]"]
    by auto
  have seq: "pkce_state ?s' = pkce_state ?s \<longleftrightarrow>
      map (entropy w) [?p + 80 ..< ?p + 96] = map (entropy w) [?p + 32 ..< ?p + 48]"
    unfolding st st' using hex_inj by auto
  show ?thesis
    using v ch st len chars nopad veq seq performAuth_browser by blast
qed

theorem generate_session_pkce_witness:
  "loadCredentials world0 = Inr creds0
   \<and> code_verifier (fst (generate_session world0)) = verifier0
   \<and> code_verifier (fst (generate_session (snd (generate_session world0)))) \<noteq> verifier0
   \<and> pkce_state (fst (generate_session (snd (generate_session world0)))) \<noteq> state0
   \<and> browser_log (snd (performAuth False world0)) =
       [authUrl creds0 state0 ''QUFFQ0F3UUZCZ2NJQ1FvTERBME9EeEFSRWhNVUZSWVg'']"
proof -
  have c: "loadCredentials world0 = Inr creds0"
    by (simp add: world0_def loadCredentials_def credentials_from_file_def creds0_def)
  have d1: "map (entropy world0) [entropy_pos world0 + 48 ..< entropy_pos world0 + 80]
            \<noteq> map (entropy world0) [entropy_pos world0 ..< entropy_pos world0 + 32]"
    by code_simp
  have d2: "map (entropy world0) [entropy_pos world0 + 80 ..< entropy_pos world0 + 96]
            \<noteq> map (entropy world0) [entropy_pos world0 + 32 ..< entropy_pos world0 + 48]"
    by code_simp
  have b: "browser_log world0 = []"
    by (simp add: world0_def)
  note t = generate_session_pkce [of world0 False]
  have v: "code_verifier (fst (generate_session world0)) = verifier0"
    and st: "pkce_state (fst (generate_session world0)) = state0"
    and ch: "code_challenge (fst (generate_session world0))
               = ''QUFFQ0F3UUZCZ2NJQ1FvTERBME9EeEFSRWhNVUZSWVg''"
    by (simp_all add: session0 state0_def verifier0_def)
  have v': "code_verifier (fst (generate_session (snd (generate_session world0))))
              \<noteq> code_verifier (fst (generate_session world0))"
    using t d1 by blast
  have st': "pkce_state (fst (generate_session (snd (generate_session world0))))
              \<noteq> pkce_state (fst (generate_session world0))"
    using t d2 by blast
  have "browser_log (snd (performAuth False world0)) =
          browser_log world0 @ [authUrl creds0 (pkce_state (fst (generate_session world0)))
                                  (code_challenge (fst (generate_session world0)))]"
    using t c by blast
  then show ?thesis
    using c v v' st' by (simp add: st ch b)
qed

section \<open>The project-only lookup, and two end-to-end scenarios\<close>

text \<open>
  The project-only lookup agrees with \<open>findTokenPath\<close> whenever the project file
  exists, and finds nothing otherwise.
\<close>

lemma findTokenPath_project_only_agrees:
  "findTokenPath_project_only w =
     (if token_files w (getProjectTokenPath w) \<noteq> None then findTokenPath w else None)"
  by (simp add: findTokenPath_project_only_def findTokenPath_def Let_def)

text \<open>
  With credentials \<^verbatim>\<open>abc\<close>/\<^verbatim>\<open>xyz\<close>, a callback that carries the code \<^verbatim>\<open>AUTHCODE1\<close> and the
  expected state, and a token endpoint that answers \<^verbatim>\<open>T1\<close>/\<^verbatim>\<open>R1\<close> with
  \<^verbatim>\<open>expires_in = 7200\<close>, \<open>performAuth\<close> stores that record with
  \<open>expires_at = now + 7200000\<close> in the project's token file.
\<close>

lemma scenario_authorize:
  "fst (performAuth False (world_flow [URL [(''code'', ''AUTHCODE1''), (''state'', state0)]] (grant ''T1'' ''R1'')))
     = Inr ()
   \<and> token_files (snd (performAuth False
        (world_flow [URL [(''code'', ''AUTHCODE1''), (''state'', state0)]] (grant ''T1'' ''R1''))))
       project_path0
     = Some (Doc \<lparr>access_token = ''T1'', refresh_token = ''R1'', expires_at = 1000000 + 7200000,
                   scope = SCOPES, token_type = ''bearer''\<rparr>)"
  by code_simp

text \<open>
  A stored record that expired a second ago makes \<open>getValidAccessToken\<close> refresh:
  it returns \<^verbatim>\<open>T2\<close> and the token file holds the new pair \<^verbatim>\<open>T2\<close>/\<^verbatim>\<open>R2\<close>.
\<close>

lemma scenario_expired:
  "fst (getValidAccessToken (world_files [(project_path0, Doc (token_at (1000000 - 1000)))])) = Inr ''T2''
   \<and> token_files (snd (getValidAccessToken (world_files [(project_path0, Doc (token_at (1000000 - 1000)))])))
       project_path0
     = Some (Doc \<lparr>access_token = ''T2'', refresh_token = ''R2'', expires_at = 1000000 + 7200000,
                   scope = SCOPES, token_type = ''bearer''\<rparr>)"
  by code_simp

end
